theory Spec2Isabelle
  imports Main "HOL-Library.Multiset"
begin

section \<open>Peering-session reconciliation of peering-manager\<close>

text \<open>
  A shallow embedding of \<^verbatim>\<open>src/peering/models/models.py\<close>: the neighbor normalizer
  of \<^verbatim>\<open>Router\<close>, the session pollers of \<^verbatim>\<open>BGPGroup\<close>, \<^verbatim>\<open>InternetExchange\<close>,
  \<^verbatim>\<open>DirectPeeringSession\<close> and \<^verbatim>\<open>InternetExchangePeeringSession\<close>, the session import,
  the available-peers query and the abandonment rule. Database tables are lists of rows, a foreign key is the primary key
  of the row it points to (\<open>None\<close> for SQL NULL), every Python exception that a
  function lets escape is a value \<open>Inl e\<close>, and \<^verbatim>\<open>timezone.now()\<close> is the
  parameter \<open>now\<close> of the call.
\<close>

subsection \<open>Python values the code relies on\<close>

datatype error = AttributeError | TypeError | MultipleObjectsReturned | IntegrityError

text \<open>
  Python's \<^verbatim>\<open>ipaddress\<close> objects: the version and the integer \<^verbatim>\<open>_ip\<close>.
\<close>

datatype ipaddr = IPv4Address nat | IPv6Address nat

fun version :: "ipaddr \<Rightarrow> nat" where
  "version (IPv4Address _) = 4"
| "version (IPv6Address _) = 6"

fun ip_int :: "ipaddr \<Rightarrow> nat" where
  "ip_int (IPv4Address n) = n"
| "ip_int (IPv6Address n) = n"

text \<open>\<^verbatim>\<open>str.lower()\<close> on ASCII text.\<close>

definition lower_char :: "char \<Rightarrow> char" where
  "lower_char c =
     (case map_of (zip ''ABCDEFGHIJKLMNOPQRSTUVWXYZ'' ''abcdefghijklmnopqrstuvwxyz'') c of
        None \<Rightarrow> c
      | Some l \<Rightarrow> l)"

definition lower :: "string \<Rightarrow> string" where
  "lower s = map lower_char s"

text \<open>
  Modelled from the spec: the members of \<^verbatim>\<open>peering.enums.BGPState\<close> that the code
  compares with (the enum itself is declared outside \<^verbatim>\<open>src/\<close>); the spec names the
  states idle, active and established, in lower case.
\<close>

definition IDLE :: string where "IDLE = ''idle''"
definition ACTIVE :: string where "ACTIVE = ''active''"
definition ESTABLISHED :: string where "ESTABLISHED = ''established''"

subsection \<open>Django's \<^verbatim>\<open>objects.get\<close>\<close>

datatype 'a get_result = Found 'a | DoesNotExist | MultipleObjects

definition objects_get :: "('a \<Rightarrow> bool) \<Rightarrow> 'a list \<Rightarrow> 'a get_result" where
  "objects_get P rows =
     (case filter P rows of
        [] \<Rightarrow> DoesNotExist
      | [r] \<Rightarrow> Found r
      | _ \<Rightarrow> MultipleObjects)"

subsection \<open>Neighbor normalizer (\<^verbatim>\<open>Router._napalm_bgp_neighbors_to_peer_list\<close>)\<close>

text \<open>
  The raw structure is a dict VRF name \<open>\<rightarrow>\<close> \<^verbatim>\<open>{"peers": {ip string: details}}\<close>; a dict
  is an association list in iteration order. Of \<^verbatim>\<open>details\<close> the code reads the key
  \<^verbatim>\<open>"remote_as"\<close> only: \<open>remote_as d = None\<close> says that the key is absent. The
  argument itself may be \<^verbatim>\<open>None\<close>.
\<close>

record peer_details =
  remote_as :: "nat option"

type_synonym napalm_peers = "(string \<times> peer_details) list"
type_synonym napalm_dict = "(string \<times> napalm_peers) list"

record bgp_peer =
  peer_ip_address :: ipaddr
  peer_remote_asn :: nat

text \<open>
  The body of the inner loop over \<^verbatim>\<open>peers.items()\<close>. \<open>parse_ip\<close> is
  \<^verbatim>\<open>ipaddress.ip_address\<close> on strings (\<open>None\<close> when it raises \<^verbatim>\<open>ValueError\<close>),
  \<open>str_ip\<close> is \<^verbatim>\<open>str\<close> on address objects; both belong to the Python library and are
  parameters here.
\<close>

fun peers_loop ::
  "(string \<Rightarrow> ipaddr option) \<Rightarrow> (ipaddr \<Rightarrow> string) \<Rightarrow> napalm_peers \<Rightarrow> bgp_peer list
     \<Rightarrow> bgp_peer list" where
  "peers_loop parse_ip str_ip [] bgp_peers = bgp_peers"
| "peers_loop parse_ip str_ip ((ip, details) # rest) bgp_peers =
     (case remote_as details of
        None \<Rightarrow> peers_loop parse_ip str_ip rest bgp_peers
      | Some asn \<Rightarrow>
          if ip \<in> set (map (\<lambda>i. str_ip (peer_ip_address i)) bgp_peers)
          then peers_loop parse_ip str_ip rest bgp_peers
          else (case parse_ip ip of
                  None \<Rightarrow> peers_loop parse_ip str_ip rest bgp_peers
                | Some a \<Rightarrow>
                    peers_loop parse_ip str_ip rest
                      (bgp_peers @ [\<lparr>peer_ip_address = a, peer_remote_asn = asn\<rparr>])))"

fun vrf_loop ::
  "(string \<Rightarrow> ipaddr option) \<Rightarrow> (ipaddr \<Rightarrow> string) \<Rightarrow> napalm_dict \<Rightarrow> bgp_peer list
     \<Rightarrow> bgp_peer list" where
  "vrf_loop parse_ip str_ip [] bgp_peers = bgp_peers"
| "vrf_loop parse_ip str_ip ((vrf, peers) # rest) bgp_peers =
     vrf_loop parse_ip str_ip rest (peers_loop parse_ip str_ip peers bgp_peers)"

definition napalm_bgp_neighbors_to_peer_list ::
  "(string \<Rightarrow> ipaddr option) \<Rightarrow> (ipaddr \<Rightarrow> string) \<Rightarrow> napalm_dict option
     \<Rightarrow> bgp_peer list" where
  "napalm_bgp_neighbors_to_peer_list parse_ip str_ip napalm_dict =
     (case napalm_dict of
        None \<Rightarrow> []
      | Some d \<Rightarrow> if d = [] then [] else vrf_loop parse_ip str_ip d [])"

subsection \<open>Stored records\<close>

text \<open>
  Every Django model has a primary key. Modelled from the spec: the fields of the
  abstract classes \<^verbatim>\<open>BGPSession\<close> and \<^verbatim>\<open>AbstractGroup\<close> (declared in
  \<^verbatim>\<open>abstracts.py\<close>, outside \<^verbatim>\<open>src/\<close>): remote AS, remote IP address, BGP state,
  received and advertised prefix counters and the last-established timestamp of a
  session; the check-session-states toggle and the last-poll timestamp of a group.
  The prefix counters are non-negative integers, so their type is \<open>nat\<close>. The
  subclasses add the fields that \<^verbatim>\<open>models.py\<close> declares.
\<close>

record model =
  pk :: nat

record bgp_session = model +
  autonomous_system :: nat
  ip_address :: ipaddr
  bgp_state :: string
  received_prefix_count :: nat
  advertised_prefix_count :: nat
  last_established_state :: "nat option"

record direct_peering_session = bgp_session +
  bgp_group :: "nat option"
  router :: "nat option"

record internet_exchange_peering_session = bgp_session +
  ixp_connection :: "nat option"

record abstract_group = model +
  check_bgp_session_states :: bool
  bgp_session_states_update :: "nat option"

record internet_exchange = abstract_group +
  peeringdb_ixlan :: "nat option"
  local_autonomous_system :: "nat option"

text \<open>
  Modelled from the spec: \<^verbatim>\<open>net.models.Connection\<close> (declared outside \<^verbatim>\<open>src/\<close>), the
  attachment of a router to an IXP, optionally linked to an external member record;
  \<^verbatim>\<open>models.py\<close> reads its fields \<^verbatim>\<open>internet_exchange_point\<close>, \<^verbatim>\<open>router\<close> and
  \<^verbatim>\<open>peeringdb_netixlan\<close>, and its property \<^verbatim>\<open>linked_to_peeringdb\<close>, which
  \<^verbatim>\<open>InternetExchange.link_to_peeringdb\<close> uses as the guard for reading
  \<^verbatim>\<open>connection.peeringdb_netixlan.ixlan\<close>.
\<close>

record connection = model +
  internet_exchange_point :: "nat option"
  connection_router :: "nat option"
  peeringdb_netixlan :: "nat option"

definition connection_linked_to_peeringdb :: "connection \<Rightarrow> bool" where
  "connection_linked_to_peeringdb c = (peeringdb_netixlan c \<noteq> None)"

text \<open>\<^verbatim>\<open>save()\<close> of a row that exists: the row with its primary key is replaced.\<close>

definition save_row :: "'a model_scheme \<Rightarrow> 'a model_scheme list \<Rightarrow> 'a model_scheme list" where
  "save_row row rows = map (\<lambda>r. if pk r = pk row then row else r) rows"

text \<open>
  Modelled from the spec: the two prefix counters as \<^verbatim>\<open>save()\<close> writes them. The
  columns hold non-negative integers only ("prefix counters are never negative"): the
  database refuses a negative number, \<^verbatim>\<open>save()\<close> raises \<^verbatim>\<open>IntegrityError\<close> and nothing
  is stored.
\<close>

definition save_counters :: "int \<Rightarrow> int \<Rightarrow> error + nat \<times> nat" where
  "save_counters received advertised =
     (if received < 0 \<or> advertised < 0 then Inl IntegrityError
      else Inr (nat received, nat advertised))"

text \<open>The order of the \<^verbatim>\<open>save()\<close> calls of one poll.\<close>

datatype save = SaveSession nat | SaveGroup nat

subsection \<open>Live neighbor details\<close>

text \<open>
  What \<^verbatim>\<open>Router.get_bgp_neighbors_detail()\<close> returns: a dict VRF \<open>\<rightarrow>\<close> ASN \<open>\<rightarrow>\<close> list of
  detail records, or an empty value when the device could not be reached. Of a detail
  record the code reads four keys; the address is held parsed, and a counter is an
  integer or \<^verbatim>\<open>None\<close>. The device adapter is the parameter \<open>device\<close>: router primary
  key to returned value.
\<close>

record neighbor_detail =
  remote_address :: ipaddr
  connection_state :: string
  detail_received_prefix_count :: "int option"
  detail_advertised_prefix_count :: "int option"

type_synonym neighbors_detail = "(string \<times> (nat \<times> neighbor_detail list) list) list"

definition bgp_neighbors_detail_as_list :: "neighbors_detail \<Rightarrow> neighbor_detail list" where
  "bgp_neighbors_detail_as_list bgp_neighbors_detail =
     (if bgp_neighbors_detail = [] then []
      else concat (map (\<lambda>(vrf, asns). concat (map snd asns)) bgp_neighbors_detail))"

subsection \<open>\<^verbatim>\<open>BGPGroup.poll_peering_sessions\<close>\<close>

text \<open>
  The first loop: one call of the device adapter per router, in the order in which the
  sessions name the routers. A session without router raises \<^verbatim>\<open>AttributeError\<close>
  (\<^verbatim>\<open>None\<close> is in no dict, and has no method).
\<close>

fun fetch_details ::
  "(nat \<Rightarrow> neighbors_detail) \<Rightarrow> direct_peering_session list
     \<Rightarrow> (nat \<times> neighbor_detail list) list \<Rightarrow> error + (nat \<times> neighbor_detail list) list" where
  "fetch_details device [] acc = Inr acc"
| "fetch_details device (session # rest) acc =
     (case router session of
        None \<Rightarrow> Inl AttributeError
      | Some r \<Rightarrow>
          if r \<in> set (map fst acc) then fetch_details device rest acc
          else fetch_details device rest
                 (acc @ [(r, bgp_neighbors_detail_as_list (device r))]))"

text \<open>
  The body of the loop over the live records of one router: look the session up, and on
  success update and save it. \<^verbatim>\<open>received > 0\<close> raises \<^verbatim>\<open>TypeError\<close> on \<^verbatim>\<open>None\<close>.
\<close>

definition group_update_session ::
  "nat \<Rightarrow> nat \<Rightarrow> nat \<Rightarrow> neighbor_detail \<Rightarrow> direct_peering_session list \<times> save list
     \<Rightarrow> error + direct_peering_session list \<times> save list" where
  "group_update_session now self r session st =
     (case objects_get
             (\<lambda>s. ip_address s = remote_address session \<and> bgp_group s = Some self
                    \<and> router s = Some r) (fst st) of
        DoesNotExist \<Rightarrow> Inr st
      | MultipleObjects \<Rightarrow> Inl MultipleObjectsReturned
      | Found peering_session \<Rightarrow>
          (case detail_received_prefix_count session of
             None \<Rightarrow> Inl TypeError
           | Some received \<Rightarrow>
               (case detail_advertised_prefix_count session of
                  None \<Rightarrow> Inl TypeError
                | Some advertised \<Rightarrow>
                    let state = lower (connection_state session) in
                    (case save_counters (if received > 0 then received else 0)
                            (if advertised > 0 then advertised else 0) of
                       Inl e \<Rightarrow> Inl e
                     | Inr (rcv, adv) \<Rightarrow>
                         let updated = peering_session
                               \<lparr>bgp_state := state,
                                received_prefix_count := rcv,
                                advertised_prefix_count := adv,
                                last_established_state :=
                                  (if state = ESTABLISHED then Some now
                                   else last_established_state peering_session)\<rparr>
                         in Inr (save_row updated (fst st),
                                 snd st @ [SaveSession (pk updated)])))))"

fun group_detail_loop ::
  "nat \<Rightarrow> nat \<Rightarrow> nat \<Rightarrow> neighbor_detail list \<Rightarrow> direct_peering_session list \<times> save list
     \<Rightarrow> error + direct_peering_session list \<times> save list" where
  "group_detail_loop now self r [] st = Inr st"
| "group_detail_loop now self r (session # rest) st =
     (case group_update_session now self r session st of
        Inl e \<Rightarrow> Inl e
      | Inr st' \<Rightarrow> group_detail_loop now self r rest st')"

fun group_router_loop ::
  "nat \<Rightarrow> nat \<Rightarrow> (nat \<times> neighbor_detail list) list
     \<Rightarrow> direct_peering_session list \<times> save list
     \<Rightarrow> error + direct_peering_session list \<times> save list" where
  "group_router_loop now self [] st = Inr st"
| "group_router_loop now self ((r, detail) # rest) st =
     (case group_detail_loop now self r detail st of
        Inl e \<Rightarrow> Inl e
      | Inr st' \<Rightarrow> group_router_loop now self rest st')"

text \<open>
  The whole method. The result is the returned boolean, the table of direct sessions,
  the group and the saves made, as committed; \<open>Inl e\<close> is an exception that reached the
  caller, after which the table and the group are as before the call (nothing is
  written before \<^verbatim>\<open>transaction.atomic()\<close> is entered, and an exception inside rolls
  the block back).
\<close>

definition group_poll_peering_sessions ::
  "nat \<Rightarrow> (nat \<Rightarrow> neighbors_detail) \<Rightarrow> direct_peering_session list \<Rightarrow> abstract_group
     \<Rightarrow> error + bool \<times> direct_peering_session list \<times> abstract_group \<times> save list" where
  "group_poll_peering_sessions now device table self =
     (if \<not> check_bgp_session_states self then Inr (False, table, self, [])
      else
        let peering_sessions = filter (\<lambda>s. bgp_group s = Some (pk self)) table in
        if peering_sessions = [] then Inr (False, table, self, [])
        else
          (case fetch_details device peering_sessions [] of
             Inl e \<Rightarrow> Inl e
           | Inr bgp_neighbors_detail \<Rightarrow>
               if bgp_neighbors_detail = [] then Inr (False, table, self, [])
               else
                 (case group_router_loop now (pk self) bgp_neighbors_detail (table, []) of
                    Inl e \<Rightarrow> Inl e
                  | Inr (table', saves) \<Rightarrow>
                      Inr (True, table',
                           self\<lparr>bgp_session_states_update := Some now\<rparr>,
                           saves @ [SaveGroup (pk self)]))))"

subsection \<open>\<^verbatim>\<open>InternetExchange.poll_peering_sessions\<close>\<close>

text \<open>
  \<^verbatim>\<open>get_connections\<close> and \<^verbatim>\<open>get_routers\<close>: the routers whose primary key is the
  router of a connection to this IXP, in the order of the router table.
\<close>

definition get_connections :: "connection list \<Rightarrow> internet_exchange \<Rightarrow> connection list" where
  "get_connections connections self =
     filter (\<lambda>c. internet_exchange_point c = Some (pk self)) connections"

definition get_routers :: "nat list \<Rightarrow> connection list \<Rightarrow> internet_exchange \<Rightarrow> nat list" where
  "get_routers routers connections self =
     filter (\<lambda>r. Some r \<in> set (map connection_router (get_connections connections self)))
       routers"

text \<open>Python's \<^verbatim>\<open>x or 0\<close> on an integer or \<^verbatim>\<open>None\<close>.\<close>

definition or_zero :: "int option \<Rightarrow> int" where
  "or_zero x = (case x of None \<Rightarrow> 0 | Some n \<Rightarrow> if n = 0 then 0 else n)"

text \<open>
  The state that the poll threads through its loops: the table of all IXP sessions, the
  IXP itself and the saves made so far.
\<close>

type_synonym ixp_poll_state =
  "internet_exchange_peering_session list \<times> internet_exchange \<times> save list"

text \<open>
  The body of the innermost loop; the session is looked up by its address alone, and
  \<^verbatim>\<open>received or 0\<close> keeps a negative number, which \<^verbatim>\<open>save()\<close> then refuses.
\<close>

definition ixp_update_session ::
  "nat \<Rightarrow> neighbor_detail \<Rightarrow> ixp_poll_state \<Rightarrow> error + ixp_poll_state" where
  "ixp_update_session now session st =
     (case st of (table, self, saves) \<Rightarrow>
        (case objects_get (\<lambda>s. ip_address s = remote_address session) table of
           DoesNotExist \<Rightarrow> Inr st
         | MultipleObjects \<Rightarrow> Inl MultipleObjectsReturned
         | Found ixp_session \<Rightarrow>
             let state = lower (connection_state session) in
             (case save_counters (or_zero (detail_received_prefix_count session))
                     (or_zero (detail_advertised_prefix_count session)) of
                Inl e \<Rightarrow> Inl e
              | Inr (rcv, adv) \<Rightarrow>
                  let updated = ixp_session
                        \<lparr>bgp_state := state,
                         received_prefix_count := rcv,
                         advertised_prefix_count := adv,
                         last_established_state :=
                           (if state = ESTABLISHED then Some now
                            else last_established_state ixp_session)\<rparr>
                  in Inr (save_row updated table, self,
                          saves @ [SaveSession (pk updated)]))))"

fun ixp_sessions_loop ::
  "nat \<Rightarrow> neighbor_detail list \<Rightarrow> ixp_poll_state \<Rightarrow> error + ixp_poll_state" where
  "ixp_sessions_loop now [] st = Inr st"
| "ixp_sessions_loop now (session # rest) st =
     (case ixp_update_session now session st of
        Inl e \<Rightarrow> Inl e
      | Inr st' \<Rightarrow> ixp_sessions_loop now rest st')"

fun ixp_as_loop ::
  "nat \<Rightarrow> (nat \<times> neighbor_detail list) list \<Rightarrow> ixp_poll_state \<Rightarrow> error + ixp_poll_state" where
  "ixp_as_loop now [] st = Inr st"
| "ixp_as_loop now ((asn, sessions) # rest) st =
     (case ixp_sessions_loop now sessions st of
        Inl e \<Rightarrow> Inl e
      | Inr st' \<Rightarrow> ixp_as_loop now rest st')"

text \<open>
  The loop over the VRFs of one router; the last-poll timestamp is written and the IXP
  saved at the end of each iteration of this loop, where the source has the two
  statements.
\<close>

fun ixp_vrf_loop ::
  "nat \<Rightarrow> neighbors_detail \<Rightarrow> ixp_poll_state \<Rightarrow> error + ixp_poll_state" where
  "ixp_vrf_loop now [] st = Inr st"
| "ixp_vrf_loop now ((vrf, as_details) # rest) st =
     (case ixp_as_loop now as_details st of
        Inl e \<Rightarrow> Inl e
      | Inr (table, self, saves) \<Rightarrow>
          ixp_vrf_loop now rest
            (table, self\<lparr>bgp_session_states_update := Some now\<rparr>,
             saves @ [SaveGroup (pk self)]))"

text \<open>
  The loop over the connected routers: a router without data makes the method return
  \<^verbatim>\<open>False\<close> at once.
\<close>

fun ixp_router_loop ::
  "nat \<Rightarrow> (nat \<Rightarrow> neighbors_detail) \<Rightarrow> nat list \<Rightarrow> ixp_poll_state
     \<Rightarrow> error + bool \<times> ixp_poll_state" where
  "ixp_router_loop now device [] st = Inr (True, st)"
| "ixp_router_loop now device (r # rest) st =
     (let bgp_neighbors_detail = device r in
      if bgp_neighbors_detail = [] then Inr (False, st)
      else
        (case ixp_vrf_loop now bgp_neighbors_detail st of
           Inl e \<Rightarrow> Inl e
         | Inr st' \<Rightarrow> ixp_router_loop now device rest st'))"

text \<open>
  The whole method, which runs inside \<^verbatim>\<open>@transaction.atomic\<close>: a normal return commits
  the state it has reached, whatever the boolean; \<open>Inl e\<close> is an exception that reached
  the caller, and the database is then as before the call.
\<close>

definition ixp_poll_peering_sessions ::
  "nat \<Rightarrow> (nat \<Rightarrow> neighbors_detail) \<Rightarrow> nat list \<Rightarrow> connection list
     \<Rightarrow> internet_exchange_peering_session list \<Rightarrow> internet_exchange
     \<Rightarrow> error + bool \<times> ixp_poll_state" where
  "ixp_poll_peering_sessions now device routers connections table self =
     (let connected_routers = get_routers routers connections self in
      if int (length connected_routers) < 0 then Inr (False, table, self, [])
      else if \<not> check_bgp_session_states self then Inr (False, table, self, [])
      else ixp_router_loop now device connected_routers (table, self, []))"

subsection \<open>Local AS records and the PeeringDB cache\<close>

record AutonomousSystem = model +
  asn :: nat
  name :: string
  irr_as_set :: string
  ipv6_max_prefixes :: nat
  ipv4_max_prefixes :: nat

text \<open>
  Modelled from the spec: the cached external records of \<^verbatim>\<open>peeringdb.models\<close> (declared
  outside \<^verbatim>\<open>src/\<close>), with the fields that \<^verbatim>\<open>models.py\<close> reads: a network record per
  ASN, the member records of an exchange with their v4 and v6 addresses and ASN, and
  the prefixes of an exchange. A network is its address and its prefix length.
\<close>

record Network = model +
  net_asn :: nat
  net_name :: string
  net_irr_as_set :: string
  info_prefixes6 :: nat
  info_prefixes4 :: nat

record NetworkIXLan = model +
  netixlan_asn :: nat
  ixlan :: nat
  ipaddr6 :: "ipaddr option"
  ipaddr4 :: "ipaddr option"

record ip_network =
  network_address :: ipaddr
  prefixlen :: nat

record IXLanPrefix = model +
  prefix_ixlan :: nat
  prefix :: ip_network

text \<open>
  \<^verbatim>\<open>address in network\<close> of Python's \<^verbatim>\<open>ipaddress\<close>: the versions agree, and the
  address under the netmask is the network address.
\<close>

definition max_prefixlen :: "ipaddr \<Rightarrow> nat" where
  "max_prefixlen a = (if version a = 4 then 32 else 128)"

definition network_contains :: "ip_network \<Rightarrow> ipaddr \<Rightarrow> bool" where
  "network_contains n a =
     (if version (network_address n) \<noteq> version a then False
      else
        let host_bits = max_prefixlen a - prefixlen n
        in (ip_int a div 2 ^ host_bits) * 2 ^ host_bits = ip_int (network_address n))"

text \<open>A foreign key followed to its row; \<open>None\<close> for NULL.\<close>

definition deref :: "nat option \<Rightarrow> 'a model_scheme list \<Rightarrow> 'a model_scheme option" where
  "deref fk rows = (case fk of None \<Rightarrow> None | Some k \<Rightarrow> find (\<lambda>r. pk r = k) rows)"

text \<open>The primary key that the database gives to a new row.\<close>

definition next_pk :: "'a model_scheme list \<Rightarrow> nat" where
  "next_pk rows = Suc (foldr max (map pk rows) 0)"

subsection \<open>\<^verbatim>\<open>AutonomousSystem.create_from_peeringdb\<close>\<close>

text \<open>
  Returns the AS (\<open>None\<close> without a network record) and the AS table;
  \<^verbatim>\<open>get_or_create\<close> returns the existing row when there is one.
\<close>

definition create_from_peeringdb ::
  "Network list \<Rightarrow> AutonomousSystem list \<Rightarrow> nat
     \<Rightarrow> error + AutonomousSystem option \<times> AutonomousSystem list" where
  "create_from_peeringdb networks ases n =
     (case objects_get (\<lambda>x. net_asn x = n) networks of
        DoesNotExist \<Rightarrow> Inr (None, ases)
      | MultipleObjects \<Rightarrow> Inl MultipleObjectsReturned
      | Found network \<Rightarrow>
          (case objects_get (\<lambda>a. asn a = net_asn network) ases of
             Found a \<Rightarrow> Inr (Some a, ases)
           | MultipleObjects \<Rightarrow> Inl MultipleObjectsReturned
           | DoesNotExist \<Rightarrow>
               let a = \<lparr>pk = next_pk ases, asn = net_asn network, name = net_name network,
                        irr_as_set = net_irr_as_set network,
                        ipv6_max_prefixes = info_prefixes6 network,
                        ipv4_max_prefixes = info_prefixes4 network\<rparr>
               in Inr (Some a, ases @ [a])))"

subsection \<open>\<^verbatim>\<open>InternetExchange.import_sessions\<close>\<close>

definition linked_to_peeringdb :: "internet_exchange \<Rightarrow> bool" where
  "linked_to_peeringdb self = (peeringdb_ixlan self \<noteq> None)"

definition get_prefixes :: "IXLanPrefix list \<Rightarrow> internet_exchange \<Rightarrow> IXLanPrefix list" where
  "get_prefixes prefixes self =
     (if \<not> linked_to_peeringdb self then []
      else filter (\<lambda>p. Some (prefix_ixlan p) = peeringdb_ixlan self) prefixes)"

fun is_valid :: "IXLanPrefix list \<Rightarrow> ipaddr \<Rightarrow> bool" where
  "is_valid [] ip = False"
| "is_valid (p # allowed_prefixes) ip =
     (if version (network_address (prefix p)) = version ip \<and> network_contains (prefix p) ip
      then True
      else is_valid allowed_prefixes ip)"

record import_state =
  sessions :: "internet_exchange_peering_session list"
  autonomous_systems :: "AutonomousSystem list"
  session_number :: nat
  asn_number :: nat
  ignored_autonomous_systems :: "nat list"

text \<open>
  The loop over the live neighbors. A created session has the connection, the AS and
  the address given; its other fields take their defaults.
\<close>

fun import_loop ::
  "nat \<Rightarrow> Network list \<Rightarrow> IXLanPrefix list \<Rightarrow> bgp_peer list \<Rightarrow> import_state
     \<Rightarrow> error + import_state" where
  "import_loop connection networks allowed_prefixes [] st = Inr st"
| "import_loop connection networks allowed_prefixes (session # rest) st =
     (let ip = peer_ip_address session; remote_asn = peer_remote_asn session in
      if \<not> is_valid allowed_prefixes ip
      then import_loop connection networks allowed_prefixes rest st
      else
        (case objects_get
                (\<lambda>s. ixp_connection s = Some connection \<and> ip_address s = ip) (sessions st) of
           Found existing \<Rightarrow> import_loop connection networks allowed_prefixes rest st
         | MultipleObjects \<Rightarrow> Inl MultipleObjectsReturned
         | DoesNotExist \<Rightarrow>
             (case create_from_peeringdb networks (autonomous_systems st) remote_asn of
                Inl e \<Rightarrow> Inl e
              | Inr (None, ases) \<Rightarrow>
                  import_loop connection networks allowed_prefixes rest
                    (st\<lparr>autonomous_systems := ases,
                        ignored_autonomous_systems :=
                          (if remote_asn \<notin> set (ignored_autonomous_systems st)
                           then ignored_autonomous_systems st @ [remote_asn]
                           else ignored_autonomous_systems st)\<rparr>)
              | Inr (Some a, ases) \<Rightarrow>
                  import_loop connection networks allowed_prefixes rest
                    (st\<lparr>sessions := sessions st @
                          [\<lparr>pk = next_pk (sessions st), autonomous_system = pk a,
                            ip_address = ip, bgp_state = [], received_prefix_count = 0,
                            advertised_prefix_count = 0, last_established_state = None,
                            ixp_connection = Some connection\<rparr>],
                        autonomous_systems := ases,
                        session_number := session_number st + 1,
                        asn_number := asn_number st + 1\<rparr>))))"

text \<open>
  The whole method, inside \<^verbatim>\<open>@transaction.atomic\<close>. \<open>get_bgp_neighbors\<close> is the device
  adapter: router primary key to the normalized neighbor list. The result is the pair of
  counts with the session table and the AS table as committed.
\<close>

definition import_sessions ::
  "(nat \<Rightarrow> bgp_peer list) \<Rightarrow> Network list \<Rightarrow> IXLanPrefix list
     \<Rightarrow> internet_exchange_peering_session list \<Rightarrow> AutonomousSystem list
     \<Rightarrow> internet_exchange \<Rightarrow> connection
     \<Rightarrow> error + (nat \<times> nat) \<times> internet_exchange_peering_session list
           \<times> AutonomousSystem list" where
  "import_sessions get_bgp_neighbors networks prefixes table ases self connection =
     (let allowed_prefixes = get_prefixes prefixes self in
      case connection_router connection of
        None \<Rightarrow> Inl AttributeError
      | Some r \<Rightarrow>
          (case import_loop (pk connection) networks allowed_prefixes (get_bgp_neighbors r)
                  \<lparr>sessions = table, autonomous_systems = ases, session_number = 0,
                   asn_number = 0, ignored_autonomous_systems = []\<rparr> of
             Inl e \<Rightarrow> Inl e
           | Inr st \<Rightarrow>
               Inr ((session_number st, asn_number st), sessions st,
                    autonomous_systems st)))"

subsection \<open>\<^verbatim>\<open>InternetExchange.get_available_peers\<close>\<close>

definition get_peering_sessions ::
  "connection list \<Rightarrow> internet_exchange_peering_session list \<Rightarrow> internet_exchange
     \<Rightarrow> internet_exchange_peering_session list" where
  "get_peering_sessions connections table self =
     filter (\<lambda>s. ixp_connection s \<in> set (map (\<lambda>c. Some (pk c))
                                             (get_connections connections self))) table"

text \<open>
  The filter of the query. Django's negated \<^verbatim>\<open>__in\<close> lookup holds for a row whose
  column is NULL and for an empty list, so \<^verbatim>\<open>~Q(ipaddr6__in=l)\<close> is "the column's
  value is no member of \<^verbatim>\<open>l\<close>".
\<close>

definition available_peer ::
  "nat \<Rightarrow> nat option \<Rightarrow> ipaddr list \<Rightarrow> ipaddr list \<Rightarrow> NetworkIXLan \<Rightarrow> bool" where
  "available_peer local_asn ixl ipv6_sessions ipv4_sessions m =
     (netixlan_asn m \<noteq> local_asn \<and> Some (ixlan m) = ixl
      \<and> (ipaddr6 m \<notin> set (map Some ipv6_sessions)
         \<or> ipaddr4 m \<notin> set (map Some ipv4_sessions)))"

definition get_available_peers ::
  "connection list \<Rightarrow> internet_exchange_peering_session list \<Rightarrow> AutonomousSystem list
     \<Rightarrow> NetworkIXLan list \<Rightarrow> internet_exchange \<Rightarrow> error + NetworkIXLan list" where
  "get_available_peers connections table ases netixlans self =
     (if \<not> linked_to_peeringdb self then Inr []
      else
        let existing_sessions = get_peering_sessions connections table self;
            ipv6_sessions = map ip_address
              (filter (\<lambda>s. version (ip_address s) = 6) existing_sessions);
            ipv4_sessions = map ip_address
              (filter (\<lambda>s. version (ip_address s) = 4) existing_sessions)
        in (case deref (local_autonomous_system self) ases of
              None \<Rightarrow> Inl AttributeError
            | Some local_as \<Rightarrow>
                Inr (sort_key netixlan_asn
                       (filter (available_peer (asn local_as) (peeringdb_ixlan self)
                                  ipv6_sessions ipv4_sessions) netixlans))))"

subsection \<open>\<^verbatim>\<open>InternetExchangePeeringSession.is_abandoned\<close>\<close>

definition exists_in_peeringdb ::
  "NetworkIXLan list \<Rightarrow> internet_exchange_peering_session \<Rightarrow> error + bool" where
  "exists_in_peeringdb netixlans self =
     (let ip_version = version (ip_address self) in
      case objects_get
             (\<lambda>m. (if ip_version = 6 then ipaddr6 m else ipaddr4 m) = Some (ip_address self))
             netixlans of
        Found m \<Rightarrow> Inr True
      | DoesNotExist \<Rightarrow> Inr False
      | MultipleObjects \<Rightarrow> Inl MultipleObjectsReturned)"

definition peeringdb_network :: "Network list \<Rightarrow> AutonomousSystem \<Rightarrow> error + Network option" where
  "peeringdb_network networks self =
     (case objects_get (\<lambda>n. net_asn n = asn self) networks of
        Found n \<Rightarrow> Inr (Some n)
      | DoesNotExist \<Rightarrow> Inr None
      | MultipleObjects \<Rightarrow> Inl MultipleObjectsReturned)"

text \<open>
  The condition is an \<^verbatim>\<open>or\<close> chain, evaluated from the left until one disjunct holds;
  reading an attribute of a missing related object raises \<^verbatim>\<open>AttributeError\<close>.
\<close>

definition is_abandoned ::
  "connection list \<Rightarrow> internet_exchange list \<Rightarrow> AutonomousSystem list \<Rightarrow> Network list
     \<Rightarrow> NetworkIXLan list \<Rightarrow> internet_exchange_peering_session \<Rightarrow> error + bool" where
  "is_abandoned connections ixps ases networks netixlans self =
     (case deref (ixp_connection self) connections of
        None \<Rightarrow> Inl AttributeError
      | Some c \<Rightarrow>
          if \<not> connection_linked_to_peeringdb c then Inr False
          else
            (case deref (internet_exchange_point c) ixps of
               None \<Rightarrow> Inl AttributeError
             | Some ixp \<Rightarrow>
                 if \<not> check_bgp_session_states ixp then Inr False
                 else
                   (case deref (Some (autonomous_system self)) ases of
                      None \<Rightarrow> Inl AttributeError
                    | Some a \<Rightarrow>
                        (case peeringdb_network networks a of
                           Inl e \<Rightarrow> Inl e
                         | Inr None \<Rightarrow> Inr False
                         | Inr (Some n) \<Rightarrow>
                             (case exists_in_peeringdb netixlans self of
                                Inl e \<Rightarrow> Inl e
                              | Inr True \<Rightarrow> Inr False
                              | Inr False \<Rightarrow>
                                  if bgp_state self \<notin> set [IDLE, ACTIVE] then Inr False
                                  else Inr True)))))"

subsection \<open>\<^verbatim>\<open>DirectPeeringSession.poll\<close> and \<^verbatim>\<open>InternetExchangePeeringSession.poll\<close>\<close>






subsection \<open>The committed tables\<close>



subsection \<open>Reference notions for the statements below\<close>

text \<open>
  The addresses of version \<open>v\<close> of the sessions set up over the connections of an IXP,
  as a set and without reference to the query that computes them.
\<close>

definition spec_existing_addresses ::
  "connection list \<Rightarrow> internet_exchange_peering_session list \<Rightarrow> internet_exchange \<Rightarrow> nat
     \<Rightarrow> ipaddr set" where
  "spec_existing_addresses connections table self v =
     {ip_address s | s. s \<in> set table \<and> version (ip_address s) = v \<and>
        (\<exists>c \<in> set connections.
           internet_exchange_point c = Some (pk self) \<and> ixp_connection s = Some (pk c))}"

text \<open>
  A record of the normalizer's output that comes from an entry of the input: the entry
  has the record's ASN as its \<^verbatim>\<open>remote_as\<close>, and its key parses to the record's
  address. A key is canonical when it is the text of the address it parses to.
\<close>

definition from_entry ::
  "(string \<Rightarrow> ipaddr option) \<Rightarrow> (string \<times> peer_details) list \<Rightarrow> bgp_peer \<Rightarrow> bool" where
  "from_entry parse_ip entries r =
     (\<exists>ip details. (ip, details) \<in> set entries \<and>
        remote_as details = Some (peer_remote_asn r) \<and>
        parse_ip ip = Some (peer_ip_address r))"

definition canonical ::
  "(string \<Rightarrow> ipaddr option) \<Rightarrow> (ipaddr \<Rightarrow> string) \<Rightarrow> string \<Rightarrow> bool" where
  "canonical parse_ip str_ip ip =
     (case parse_ip ip of None \<Rightarrow> True | Some a \<Rightarrow> str_ip a = ip)"









text \<open>
  The number of stored sessions of a connection with a given address.
\<close>

definition session_count ::
  "nat \<Rightarrow> ipaddr \<Rightarrow> internet_exchange_peering_session list \<Rightarrow> nat" where
  "session_count c ip table =
     length (filter (\<lambda>s. ixp_connection s = Some c \<and> ip_address s = ip) table)"

subsection \<open>Scenarios\<close>

text \<open>
  Python's \<^verbatim>\<open>ipaddress.ip_address\<close> and \<^verbatim>\<open>str\<close> as far as the address 2001:db8::1 goes:
  the hexadecimal digits are read in either case and printed in lower case.
\<close>

definition example_ip_address :: "string \<Rightarrow> ipaddr option" where
  "example_ip_address s =
     (if lower s = ''2001:db8::1''
      then Some (IPv6Address 42540766411282592856903984951653826561) else None)"

definition example_str :: "ipaddr \<Rightarrow> string" where
  "example_str a = ''2001:db8::1''"

text \<open>
  Concrete inputs for the examples: the local AS 64500, an IXP linked to the exchange
  record 10 with one connection on router 1, the member AS 65001 with the addresses
  203.0.113.1 and 2001:db8::1, and a session with its v4 address only.
\<close>

definition example_ases :: "AutonomousSystem list" where
  "example_ases =
     [\<lparr>pk = 1, asn = 64500, name = ''local'', irr_as_set = [], ipv6_max_prefixes = 0,
       ipv4_max_prefixes = 0\<rparr>,
      \<lparr>pk = 2, asn = 65001, name = ''peer'', irr_as_set = [], ipv6_max_prefixes = 0,
       ipv4_max_prefixes = 0\<rparr>]"

definition example_ixp :: internet_exchange where
  "example_ixp =
     \<lparr>pk = 1, check_bgp_session_states = True, bgp_session_states_update = None,
      peeringdb_ixlan = Some 10, local_autonomous_system = Some 1\<rparr>"

definition example_connections :: "connection list" where
  "example_connections =
     [\<lparr>pk = 1, internet_exchange_point = Some 1, connection_router = Some 1,
       peeringdb_netixlan = None\<rparr>]"

definition example_member :: NetworkIXLan where
  "example_member =
     \<lparr>pk = 1, netixlan_asn = 65001, ixlan = 10,
      ipaddr6 = Some (IPv6Address 42540766411282592856903984951653826561),
      ipaddr4 = Some (IPv4Address 3405803777)\<rparr>"

definition example_session :: internet_exchange_peering_session where
  "example_session =
     \<lparr>pk = 1, autonomous_system = 2, ip_address = IPv4Address 3405803777,
      bgp_state = ''idle'', received_prefix_count = 0, advertised_prefix_count = 0,
      last_established_state = None, ixp_connection = Some 1\<rparr>"

text \<open>
  A second session, for 203.0.113.2; live records for the two addresses, one of them
  with an unknown received count (\<open>-1\<close>) and no advertised count; and the connections
  of two scenarios: router 2 attached to another IXP, and router 2 attached to the same
  IXP.
\<close>

definition example_session2 :: internet_exchange_peering_session where
  "example_session2 =
     \<lparr>pk = 2, autonomous_system = 2, ip_address = IPv4Address 3405803778,
      bgp_state = ''idle'', received_prefix_count = 0, advertised_prefix_count = 0,
      last_established_state = None, ixp_connection = Some 1\<rparr>"

definition example_detail :: neighbor_detail where
  "example_detail =
     \<lparr>remote_address = IPv4Address 3405803777, connection_state = ''Established'',
      detail_received_prefix_count = Some 10, detail_advertised_prefix_count = Some 5\<rparr>"

definition example_detail2 :: neighbor_detail where
  "example_detail2 =
     \<lparr>remote_address = IPv4Address 3405803778, connection_state = ''Idle'',
      detail_received_prefix_count = Some 0, detail_advertised_prefix_count = Some 0\<rparr>"

definition example_detail_unknown :: neighbor_detail where
  "example_detail_unknown =
     \<lparr>remote_address = IPv4Address 3405803777, connection_state = ''Active'',
      detail_received_prefix_count = Some (- 1), detail_advertised_prefix_count = None\<rparr>"

definition connections_two_ixps :: "connection list" where
  "connections_two_ixps =
     [\<lparr>pk = 1, internet_exchange_point = Some 1, connection_router = Some 1,
       peeringdb_netixlan = None\<rparr>,
      \<lparr>pk = 2, internet_exchange_point = Some 2, connection_router = Some 2,
       peeringdb_netixlan = None\<rparr>]"

definition connections_two_routers :: "connection list" where
  "connections_two_routers =
     [\<lparr>pk = 1, internet_exchange_point = Some 1, connection_router = Some 1,
       peeringdb_netixlan = None\<rparr>,
      \<lparr>pk = 2, internet_exchange_point = Some 1, connection_router = Some 2,
       peeringdb_netixlan = None\<rparr>]"

text \<open>
  Device adapters: router 1 alone answers; router 2 alone answers; router 1 answers with
  two VRFs; router 1 answers with the unknown counts.
\<close>

definition device_router1 :: "nat \<Rightarrow> neighbors_detail" where
  "device_router1 r = (if r = 1 then [(''default'', [(65001, [example_detail])])] else [])"

definition device_router2 :: "nat \<Rightarrow> neighbors_detail" where
  "device_router2 r = (if r = 2 then [(''default'', [(65001, [example_detail])])] else [])"

definition device_two_vrfs :: "nat \<Rightarrow> neighbors_detail" where
  "device_two_vrfs r =
     (if r = 1 then [(''default'', [(65001, [example_detail])]),
                     (''mgmt'', [(65002, [example_detail2])])] else [])"

definition device_unknown :: "nat \<Rightarrow> neighbors_detail" where
  "device_unknown r =
     (if r = 1 then [(''default'', [(65001, [example_detail_unknown])])] else [])"

text \<open>
  A BGP group with one direct session to 203.0.113.1 on router 1, established since
  time 50.
\<close>

definition example_group :: abstract_group where
  "example_group =
     \<lparr>pk = 1, check_bgp_session_states = True, bgp_session_states_update = None\<rparr>"

definition example_direct_session :: direct_peering_session where
  "example_direct_session =
     \<lparr>pk = 1, autonomous_system = 2, ip_address = IPv4Address 3405803777,
      bgp_state = ''established'', received_prefix_count = 10, advertised_prefix_count = 5,
      last_established_state = Some 50, bgp_group = Some 1, router = Some 1\<rparr>"

text \<open>
  The PeeringDB cache of the import scenarios: network records for the ASNs 65001 and
  65002, the prefix 203.0.113.0/24 of the exchange record 10; and two live neighbor
  lists: one neighbor of AS 65001, which has a local AS record already, and two
  neighbors of AS 65002, which has none.
\<close>

definition example_networks :: "Network list" where
  "example_networks =
     [\<lparr>pk = 1, net_asn = 65001, net_name = ''peer'', net_irr_as_set = [],
       info_prefixes6 = 0, info_prefixes4 = 0\<rparr>,
      \<lparr>pk = 2, net_asn = 65002, net_name = ''other'', net_irr_as_set = [],
       info_prefixes6 = 0, info_prefixes4 = 0\<rparr>]"

definition example_prefixes :: "IXLanPrefix list" where
  "example_prefixes =
     [\<lparr>pk = 1, prefix_ixlan = 10,
       prefix = \<lparr>network_address = IPv4Address 3405803776, prefixlen = 24\<rparr>\<rparr>]"

definition neighbors_known_asn :: "nat \<Rightarrow> bgp_peer list" where
  "neighbors_known_asn r =
     [\<lparr>peer_ip_address = IPv4Address 3405803777, peer_remote_asn = 65001\<rparr>]"

definition neighbors_same_asn :: "nat \<Rightarrow> bgp_peer list" where
  "neighbors_same_asn r =
     [\<lparr>peer_ip_address = IPv4Address 3405803777, peer_remote_asn = 65002\<rparr>,
      \<lparr>peer_ip_address = IPv4Address 3405803778, peer_remote_asn = 65002\<rparr>]"

text \<open>
  Textual addresses for the normalizer: Python's \<^verbatim>\<open>ipaddress.ip_address\<close> and \<^verbatim>\<open>str\<close> as
  far as 203.0.113.1 and 203.0.113.2 go, the raw neighbors of the VRF "default" with a
  peer that has no \<^verbatim>\<open>remote_as\<close>, and a live neighbor 198.51.100.5 outside the prefix of
  the exchange.
\<close>

definition example_ip_address4 :: "string \<Rightarrow> ipaddr option" where
  "example_ip_address4 s =
     (if s = ''203.0.113.1'' then Some (IPv4Address 3405803777)
      else if s = ''203.0.113.2'' then Some (IPv4Address 3405803778) else None)"

definition example_str4 :: "ipaddr \<Rightarrow> string" where
  "example_str4 a =
     (if a = IPv4Address 3405803777 then ''203.0.113.1''
      else if a = IPv4Address 3405803778 then ''203.0.113.2'' else [])"

definition example_napalm_dict :: napalm_dict where
  "example_napalm_dict =
     [(''default'', [(''203.0.113.1'', \<lparr>remote_as = Some 65001\<rparr>),
                     (''203.0.113.2'', \<lparr>remote_as = None\<rparr>)])]"

definition neighbors_outside :: "nat \<Rightarrow> bgp_peer list" where
  "neighbors_outside r =
     [\<lparr>peer_ip_address = IPv4Address 3325256709, peer_remote_asn = 65001\<rparr>]"


section \<open>Properties\<close>

lemmas ixp_poll_defs = ixp_poll_peering_sessions_def get_routers_def get_connections_def
  ixp_update_session_def objects_get_def save_row_def or_zero_def save_counters_def
  lower_def lower_char_def ESTABLISHED_def

lemmas group_poll_defs = group_poll_peering_sessions_def group_update_session_def
  bgp_neighbors_detail_as_list_def objects_get_def save_row_def save_counters_def lower_def
  lower_char_def ESTABLISHED_def

subsection \<open>The poll of an IXP\<close>

text \<open>
  C1. Polling IXP 1, whose only router 1 reports the neighbor 203.0.113.1, updates the
  stored session with that address although the session belongs to connection 2, which
  attaches router 2 to IXP 2, and is none of the sessions of IXP 1: the lookup of
  \<^verbatim>\<open>InternetExchange.poll_peering_sessions\<close> is by address alone.
\<close>

theorem ixp_poll_updates_session_of_other_ixp:
  "ixp_poll_peering_sessions 100 device_router1 [1, 2] connections_two_ixps
     [example_session\<lparr>ixp_connection := Some 2\<rparr>] example_ixp
   = Inr (True,
          [example_session\<lparr>ixp_connection := Some 2, bgp_state := ''established'',
             received_prefix_count := 10, advertised_prefix_count := 5,
             last_established_state := Some 100\<rparr>],
          example_ixp\<lparr>bgp_session_states_update := Some 100\<rparr>,
          [SaveSession 1, SaveGroup 1])
   \<and> get_peering_sessions connections_two_ixps
         [example_session\<lparr>ixp_connection := Some 2\<rparr>] example_ixp = []"
  by (simp add: ixp_poll_defs device_router1_def connections_two_ixps_def
      example_session_def example_ixp_def example_detail_def get_peering_sessions_def)

text \<open>
  C3. When the router of an IXP reports two VRFs, the poll saves the IXP with its
  last-poll timestamp twice, the first time before the session of the second VRF is
  updated; and for an IXP without connection, hence without connected router, the poll
  returns \<^verbatim>\<open>True\<close> without writing the timestamp at all.
\<close>

theorem ixp_poll_saves_timestamp_per_vrf:
  "ixp_poll_peering_sessions 100 device_two_vrfs [1] example_connections
     [example_session, example_session2] example_ixp
   = Inr (True,
          [example_session\<lparr>bgp_state := ''established'',
             received_prefix_count := 10, advertised_prefix_count := 5,
             last_established_state := Some 100\<rparr>, example_session2],
          example_ixp\<lparr>bgp_session_states_update := Some 100\<rparr>,
          [SaveSession 1, SaveGroup 1, SaveSession 2, SaveGroup 1])
   \<and> ixp_poll_peering_sessions 100 device_two_vrfs [1] []
         [example_session, example_session2] example_ixp
       = Inr (True, [example_session, example_session2], example_ixp, [])"
  by (simp add: ixp_poll_defs device_two_vrfs_def example_connections_def
      example_session_def example_session2_def example_ixp_def example_detail_def
      example_detail2_def)

text \<open>
  C4. Routers 1 and 2 are attached to the IXP; router 1 yields no data and router 2
  reports the neighbor of the stored session. The poll stops at router 1: it returns
  \<^verbatim>\<open>False\<close>, router 2 is not polled and the session is not updated. With the routers
  in the other order the session is updated and the timestamp written, and the poll
  still returns \<^verbatim>\<open>False\<close>.
\<close>

theorem ixp_poll_stops_at_router_without_data:
  "ixp_poll_peering_sessions 100 device_router2 [1, 2] connections_two_routers
     [example_session\<lparr>ixp_connection := Some 2\<rparr>] example_ixp
   = Inr (False, [example_session\<lparr>ixp_connection := Some 2\<rparr>], example_ixp, [])
   \<and> ixp_poll_peering_sessions 100 device_router2 [2, 1] connections_two_routers
         [example_session\<lparr>ixp_connection := Some 2\<rparr>] example_ixp
       = Inr (False,
              [example_session\<lparr>ixp_connection := Some 2, bgp_state := ''established'',
                 received_prefix_count := 10, advertised_prefix_count := 5,
                 last_established_state := Some 100\<rparr>],
              example_ixp\<lparr>bgp_session_states_update := Some 100\<rparr>,
              [SaveSession 1, SaveGroup 1])"
  by (simp add: ixp_poll_defs device_router2_def connections_two_routers_def
      example_session_def example_ixp_def example_detail_def)

text \<open>
  C6. A live record with received count \<open>-1\<close> and no advertised count: the poll of the
  IXP keeps the \<open>-1\<close> (\<^verbatim>\<open>received or 0\<close> does not clamp a negative number), the save
  of the session raises \<^verbatim>\<open>IntegrityError\<close> and the cycle is rolled back; the poll of a
  BGP group raises \<^verbatim>\<open>TypeError\<close> on the absent count (\<^verbatim>\<open>advertised > 0\<close>). Neither
  poll clamps both cases to 0, and each raises. The other half works in each: the IXP
  poll stores 0 for the absent count alone, the group poll stores 0 for the negative
  count alone.
\<close>

theorem poll_negative_or_absent_count:
  "ixp_poll_peering_sessions 100 device_unknown [1] example_connections
     [example_session] example_ixp = Inl IntegrityError
   \<and> group_poll_peering_sessions 100 device_unknown [example_direct_session] example_group
       = Inl TypeError
   \<and> ixp_update_session 100 (example_detail_unknown\<lparr>detail_received_prefix_count := Some 7\<rparr>)
         ([example_session], example_ixp, [])
       = Inr ([example_session\<lparr>bgp_state := ''active'', received_prefix_count := 7,
                 advertised_prefix_count := 0\<rparr>], example_ixp, [SaveSession 1])
   \<and> group_update_session 100 1 1
         (example_detail_unknown\<lparr>detail_advertised_prefix_count := Some 7\<rparr>)
         ([example_direct_session], [])
       = Inr ([example_direct_session\<lparr>bgp_state := ''active'', received_prefix_count := 0,
                 advertised_prefix_count := 7\<rparr>], [SaveSession 1])"
  by (simp add: ixp_poll_defs group_poll_defs device_unknown_def example_connections_def
      example_session_def example_ixp_def example_detail_unknown_def example_group_def
      example_direct_session_def)

lemmas import_defs = import_sessions_def get_prefixes_def linked_to_peeringdb_def
  network_contains_def max_prefixlen_def create_from_peeringdb_def objects_get_def
  next_pk_def Let_def

lemmas abandoned_defs = is_abandoned_def deref_def connection_linked_to_peeringdb_def
  peeringdb_network_def exists_in_peeringdb_def objects_get_def IDLE_def ACTIVE_def

subsection \<open>The poll of a BGP group\<close>











lemma group_update_session_saves:
  "group_update_session now g r d st = Inr st' \<Longrightarrow>
   \<exists>ss. snd st' = snd st @ ss \<and> (\<forall>s \<in> set ss. \<exists>k. s = SaveSession k)"
  by (auto simp: group_update_session_def Let_def
      split: get_result.splits option.splits sum.splits prod.splits)

lemma group_detail_loop_saves:
  "group_detail_loop now g r ds st = Inr st' \<Longrightarrow>
   \<exists>ss. snd st' = snd st @ ss \<and> (\<forall>s \<in> set ss. \<exists>k. s = SaveSession k)"
proof (induction ds arbitrary: st)
  case Nil
  then show ?case by simp
next
  case (Cons d ds)
  from Cons.prems obtain st1 where
    1: "group_update_session now g r d st = Inr st1"
    and 2: "group_detail_loop now g r ds st1 = Inr st'"
    by (auto split: sum.splits)
  from group_update_session_saves [OF 1] obtain ss1 where
    a: "snd st1 = snd st @ ss1" "\<forall>s \<in> set ss1. \<exists>k. s = SaveSession k" by blast
  from Cons.IH [OF 2] obtain ss2 where
    b: "snd st' = snd st1 @ ss2" "\<forall>s \<in> set ss2. \<exists>k. s = SaveSession k" by blast
  have "snd st' = snd st @ (ss1 @ ss2)" using a(1) b(1) by simp
  moreover have "\<forall>s \<in> set (ss1 @ ss2). \<exists>k. s = SaveSession k" using a(2) b(2) by auto
  ultimately show ?case by blast
qed

lemma group_router_loop_saves:
  "group_router_loop now g dict st = Inr st' \<Longrightarrow>
   \<exists>ss. snd st' = snd st @ ss \<and> (\<forall>s \<in> set ss. \<exists>k. s = SaveSession k)"
proof (induction dict arbitrary: st)
  case Nil
  then show ?case by simp
next
  case (Cons e dict)
  obtain r ds where e: "e = (r, ds)" by (cases e)
  from Cons.prems obtain st1 where
    1: "group_detail_loop now g r ds st = Inr st1"
    and 2: "group_router_loop now g dict st1 = Inr st'"
    by (auto simp: e split: sum.splits)
  from group_detail_loop_saves [OF 1] obtain ss1 where
    a: "snd st1 = snd st @ ss1" "\<forall>s \<in> set ss1. \<exists>k. s = SaveSession k" by blast
  from Cons.IH [OF 2] obtain ss2 where
    b: "snd st' = snd st1 @ ss2" "\<forall>s \<in> set ss2. \<exists>k. s = SaveSession k" by blast
  have "snd st' = snd st @ (ss1 @ ss2)" using a(1) b(1) by simp
  moreover have "\<forall>s \<in> set (ss1 @ ss2). \<exists>k. s = SaveSession k" using a(2) b(2) by auto
  ultimately show ?case by blast
qed

text \<open>
  A poll of a BGP group that returns \<^verbatim>\<open>True\<close> saves sessions only, and then the group
  with its last-poll timestamp, once and last.
\<close>

theorem group_poll_saves_group_last:
  assumes "group_poll_peering_sessions now device table self = Inr (True, table', self', saves)"
  shows "self' = self\<lparr>bgp_session_states_update := Some now\<rparr>
         \<and> (\<exists>ss. saves = ss @ [SaveGroup (pk self)] \<and> (\<forall>s \<in> set ss. \<exists>k. s = SaveSession k))"
proof -
  from assms obtain dict st' where
    l: "group_router_loop now (pk self) dict (table, []) = Inr st'"
    and s: "saves = snd st' @ [SaveGroup (pk self)]"
    and g: "self' = self\<lparr>bgp_session_states_update := Some now\<rparr>"
    by (auto simp: group_poll_peering_sessions_def Let_def split: if_splits sum.splits)
  from group_router_loop_saves [OF l] s g show ?thesis by auto
qed


text \<open>
  The group with one session, polled at time 100.
\<close>

theorem group_poll_saves_group_last_witness:
  "group_poll_peering_sessions 100 device_router1 [example_direct_session] example_group
     = Inr (True, [example_direct_session\<lparr>last_established_state := Some 100\<rparr>],
            example_group\<lparr>bgp_session_states_update := Some 100\<rparr>,
            [SaveSession 1] @ [SaveGroup (pk example_group)])"
proof -
  have p: "group_poll_peering_sessions 100 device_router1 [example_direct_session]
             example_group
           = Inr (True, [example_direct_session\<lparr>last_established_state := Some 100\<rparr>],
                  example_group\<lparr>bgp_session_states_update := Some 100\<rparr>,
                  [SaveSession 1, SaveGroup 1])"
    by (simp add: group_poll_defs device_router1_def example_direct_session_def
        example_group_def example_detail_def)
  from group_poll_saves_group_last [OF p] p show ?thesis by (simp add: example_group_def)
qed

subsection \<open>The stamp of the four pollers\<close>























subsection \<open>Neighbor normalizer\<close>

lemma peers_loop_length:
  "length (peers_loop parse_ip str_ip peers acc) \<le> length acc + length peers"
proof (induction peers arbitrary: acc)
  case Nil
  then show ?case by simp
next
  case (Cons p peers)
  obtain ip details where p: "p = (ip, details)" by (cases p)
  show ?case
    using Cons.IH [of acc]
      Cons.IH [of "acc @ [\<lparr>peer_ip_address = the (parse_ip ip),
                            peer_remote_asn = the (remote_as details)\<rparr>]"]
    by (auto simp: p split: option.splits)
qed

lemma vrf_loop_length:
  "length (vrf_loop parse_ip str_ip d acc) \<le> length acc + length (concat (map snd d))"
proof (induction d arbitrary: acc)
  case Nil
  then show ?case by simp
next
  case (Cons v d)
  obtain vrf peers where v: "v = (vrf, peers)" by (cases v)
  have "length (vrf_loop parse_ip str_ip (v # d) acc)
          \<le> length (peers_loop parse_ip str_ip peers acc) + length (concat (map snd d))"
    using Cons.IH by (simp add: v)
  also have "\<dots> \<le> length acc + length peers + length (concat (map snd d))"
    using peers_loop_length [of parse_ip str_ip peers acc] by simp
  finally show ?case by (simp add: v)
qed

lemma from_entry_mono: "set es \<subseteq> set es' \<Longrightarrow> from_entry p es r \<Longrightarrow> from_entry p es' r"
  unfolding from_entry_def by blast

lemma peers_loop_from_entry:
  "\<forall>r \<in> set acc. from_entry parse_ip es r \<Longrightarrow> set peers \<subseteq> set es \<Longrightarrow>
   \<forall>r \<in> set (peers_loop parse_ip str_ip peers acc). from_entry parse_ip es r"
proof (induction peers arbitrary: acc)
  case Nil
  then show ?case by simp
next
  case (Cons p peers)
  obtain ip details where p: "p = (ip, details)" by (cases p)
  have rest: "set peers \<subseteq> set es" and here: "(ip, details) \<in> set es"
    using Cons.prems(2) by (auto simp: p)
  show ?case
  proof (cases "remote_as details")
    case None
    then show ?thesis using Cons.IH [OF Cons.prems(1) rest] by (simp add: p)
  next
    case (Some n)
    show ?thesis
    proof (cases "ip \<in> set (map (\<lambda>i. str_ip (peer_ip_address i)) acc)")
      case True
      then show ?thesis using Some Cons.IH [OF Cons.prems(1) rest] by (simp add: p)
    next
      case False
      show ?thesis
      proof (cases "parse_ip ip")
        case None
        then show ?thesis using Some False Cons.IH [OF Cons.prems(1) rest] by (simp add: p)
      next
        case (Some a)
        let ?r = "\<lparr>peer_ip_address = a, peer_remote_asn = n\<rparr>"
        have "from_entry parse_ip es ?r"
          unfolding from_entry_def using here \<open>remote_as details = Some n\<close> Some by auto
        then have "\<forall>r \<in> set (acc @ [?r]). from_entry parse_ip es r"
          using Cons.prems(1) by auto
        from Cons.IH [OF this rest] show ?thesis
          using Some False \<open>remote_as details = Some n\<close> by (simp add: p)
      qed
    qed
  qed
qed

lemma vrf_loop_from_entry:
  "\<forall>r \<in> set acc. from_entry parse_ip es r \<Longrightarrow> set (concat (map snd d)) \<subseteq> set es \<Longrightarrow>
   \<forall>r \<in> set (vrf_loop parse_ip str_ip d acc). from_entry parse_ip es r"
proof (induction d arbitrary: acc)
  case Nil
  then show ?case by simp
next
  case (Cons v d)
  obtain vrf peers where v: "v = (vrf, peers)" by (cases v)
  have a: "set peers \<subseteq> set es" and b: "set (concat (map snd d)) \<subseteq> set es"
    using Cons.prems(2) by (auto simp: v)
  from Cons.IH [OF peers_loop_from_entry [OF Cons.prems(1) a] b]
  show ?case by (simp add: v)
qed

lemma peers_loop_distinct:
  "distinct (map peer_ip_address acc) \<Longrightarrow> \<forall>e \<in> set peers. canonical parse_ip str_ip (fst e) \<Longrightarrow>
   distinct (map peer_ip_address (peers_loop parse_ip str_ip peers acc))"
proof (induction peers arbitrary: acc)
  case Nil
  then show ?case by simp
next
  case (Cons p peers)
  obtain ip details where p: "p = (ip, details)" by (cases p)
  have rest: "\<forall>e \<in> set peers. canonical parse_ip str_ip (fst e)"
    and here: "canonical parse_ip str_ip ip"
    using Cons.prems(2) by (auto simp: p)
  show ?case
  proof (cases "remote_as details")
    case None
    then show ?thesis using Cons.IH [OF Cons.prems(1) rest] by (simp add: p)
  next
    case (Some n)
    show ?thesis
    proof (cases "ip \<in> set (map (\<lambda>i. str_ip (peer_ip_address i)) acc)")
      case True
      then show ?thesis using Some Cons.IH [OF Cons.prems(1) rest] by (simp add: p)
    next
      case False
      show ?thesis
      proof (cases "parse_ip ip")
        case None
        then show ?thesis using Some False Cons.IH [OF Cons.prems(1) rest] by (simp add: p)
      next
        case (Some a)
        have "str_ip a = ip" using here Some by (simp add: canonical_def)
        with False have "a \<notin> set (map peer_ip_address acc)" by auto
        then have "distinct (map peer_ip_address
                     (acc @ [\<lparr>peer_ip_address = a, peer_remote_asn = n\<rparr>]))"
          using Cons.prems(1) by simp
        from Cons.IH [OF this rest] show ?thesis
          using Some False \<open>remote_as details = Some n\<close> by (simp add: p)
      qed
    qed
  qed
qed

lemma vrf_loop_distinct:
  "distinct (map peer_ip_address acc) \<Longrightarrow>
   \<forall>e \<in> set (concat (map snd d)). canonical parse_ip str_ip (fst e) \<Longrightarrow>
   distinct (map peer_ip_address (vrf_loop parse_ip str_ip d acc))"
proof (induction d arbitrary: acc)
  case Nil
  then show ?case by simp
next
  case (Cons v d)
  obtain vrf peers where v: "v = (vrf, peers)" by (cases v)
  have a: "\<forall>e \<in> set peers. canonical parse_ip str_ip (fst e)"
    and b: "\<forall>e \<in> set (concat (map snd d)). canonical parse_ip str_ip (fst e)"
    using Cons.prems(2) by (auto simp: v)
  from Cons.IH [OF peers_loop_distinct [OF Cons.prems(1) a] b]
  show ?case by (simp add: v)
qed

text \<open>
  C7. The duplicate test of the normalizer compares the key as written with the text of
  the addresses kept so far. A key that is another spelling of an address kept before
  (here in upper-case hexadecimal digits) passes the test: the output holds two records
  with the same address. The statement holds for every parser and printer that read and
  print the address as Python's do.
\<close>

theorem normalizer_keeps_second_spelling:
  assumes "parse_ip ''2001:db8::1'' = Some a" and "parse_ip ''2001:DB8::1'' = Some a"
    and "str_ip a = ''2001:db8::1''"
  shows "napalm_bgp_neighbors_to_peer_list parse_ip str_ip
           (Some [(''default'', [(''2001:db8::1'', \<lparr>remote_as = Some 65001\<rparr>),
                                 (''2001:DB8::1'', \<lparr>remote_as = Some 65001\<rparr>)])])
         = [\<lparr>peer_ip_address = a, peer_remote_asn = 65001\<rparr>,
            \<lparr>peer_ip_address = a, peer_remote_asn = 65001\<rparr>]"
  using assms by (simp add: napalm_bgp_neighbors_to_peer_list_def)

theorem normalizer_keeps_second_spelling_witness:
  "example_ip_address ''2001:db8::1''
     = Some (IPv6Address 42540766411282592856903984951653826561)
   \<and> example_ip_address ''2001:DB8::1''
       = Some (IPv6Address 42540766411282592856903984951653826561)
   \<and> example_str (IPv6Address 42540766411282592856903984951653826561) = ''2001:db8::1''
   \<and> napalm_bgp_neighbors_to_peer_list example_ip_address example_str
           (Some [(''default'', [(''2001:db8::1'', \<lparr>remote_as = Some 65001\<rparr>),
                                 (''2001:DB8::1'', \<lparr>remote_as = Some 65001\<rparr>)])])
         = [\<lparr>peer_ip_address = IPv6Address 42540766411282592856903984951653826561,
             peer_remote_asn = 65001\<rparr>,
            \<lparr>peer_ip_address = IPv6Address 42540766411282592856903984951653826561,
             peer_remote_asn = 65001\<rparr>]"
proof -
  have 1: "example_ip_address ''2001:db8::1''
             = Some (IPv6Address 42540766411282592856903984951653826561)"
    by (simp add: example_ip_address_def lower_def lower_char_def)
  have 2: "example_ip_address ''2001:DB8::1''
             = Some (IPv6Address 42540766411282592856903984951653826561)"
    by (simp add: example_ip_address_def lower_def lower_char_def)
  have 3: "example_str (IPv6Address 42540766411282592856903984951653826561) = ''2001:db8::1''"
    by (simp add: example_str_def)
  from normalizer_keeps_second_spelling [of example_ip_address
      "IPv6Address 42540766411282592856903984951653826561" example_str, OF 1 2 3] 1 2 3
  show ?thesis by simp
qed

text \<open>
  The output of the normalizer is no longer than the input has peer entries, and a
  missing or empty input gives the empty list.
\<close>

theorem normalizer_length:
  "length (napalm_bgp_neighbors_to_peer_list parse_ip str_ip (Some d))
     \<le> length (concat (map snd d))
   \<and> napalm_bgp_neighbors_to_peer_list parse_ip str_ip None = []
   \<and> napalm_bgp_neighbors_to_peer_list parse_ip str_ip (Some []) = []"
  using vrf_loop_length [of parse_ip str_ip d "[]"]
  by (simp add: napalm_bgp_neighbors_to_peer_list_def)

text \<open>
  Every record of the output comes from an entry of the input that has a
  \<^verbatim>\<open>remote_as\<close> and whose key parses: an entry without \<^verbatim>\<open>remote_as\<close> or with an
  unparseable key gives no record, and does not stop the traversal.
\<close>

theorem normalizer_records_from_entries:
  "r \<in> set (napalm_bgp_neighbors_to_peer_list parse_ip str_ip (Some d)) \<Longrightarrow>
   from_entry parse_ip (concat (map snd d)) r"
  using vrf_loop_from_entry [of "[]" parse_ip "concat (map snd d)" d str_ip]
  by (auto simp: napalm_bgp_neighbors_to_peer_list_def split: if_splits)

text \<open>
  The scenario of two peers, the second without \<^verbatim>\<open>remote_as\<close>: one record.
\<close>

theorem normalizer_records_from_entries_witness:
  "napalm_bgp_neighbors_to_peer_list example_ip_address4 example_str4
     (Some example_napalm_dict)
     = [\<lparr>peer_ip_address = IPv4Address 3405803777, peer_remote_asn = 65001\<rparr>]
   \<and> from_entry example_ip_address4 (concat (map snd example_napalm_dict))
         \<lparr>peer_ip_address = IPv4Address 3405803777, peer_remote_asn = 65001\<rparr>"
proof -
  have e: "napalm_bgp_neighbors_to_peer_list example_ip_address4 example_str4
     (Some example_napalm_dict)
     = [\<lparr>peer_ip_address = IPv4Address 3405803777, peer_remote_asn = 65001\<rparr>]"
    by (simp add: napalm_bgp_neighbors_to_peer_list_def example_napalm_dict_def
        example_ip_address4_def)
  then have "\<lparr>peer_ip_address = IPv4Address 3405803777, peer_remote_asn = 65001\<rparr>
      \<in> set (napalm_bgp_neighbors_to_peer_list example_ip_address4 example_str4
               (Some example_napalm_dict))" by simp
  from normalizer_records_from_entries [OF this] e show ?thesis by simp
qed

text \<open>
  When every key of the input is the canonical text of its address, no two records of
  the output share an address.
\<close>

theorem normalizer_distinct_canonical:
  "\<forall>e \<in> set (concat (map snd d)). canonical parse_ip str_ip (fst e) \<Longrightarrow>
   distinct (map peer_ip_address (napalm_bgp_neighbors_to_peer_list parse_ip str_ip (Some d)))"
  using vrf_loop_distinct [of "[]" d parse_ip str_ip]
  by (simp add: napalm_bgp_neighbors_to_peer_list_def)

text \<open>
  The same canonical key in two VRFs.
\<close>

theorem normalizer_distinct_canonical_witness:
  "canonical example_ip_address4 example_str4 ''203.0.113.1''
   \<and> canonical example_ip_address4 example_str4 ''203.0.113.2''
   \<and> distinct (map peer_ip_address
        (napalm_bgp_neighbors_to_peer_list example_ip_address4 example_str4
           (Some [(''default'', [(''203.0.113.1'', \<lparr>remote_as = Some 65001\<rparr>)]),
                  (''mgmt'', [(''203.0.113.1'', \<lparr>remote_as = Some 65001\<rparr>),
                              (''203.0.113.2'', \<lparr>remote_as = Some 65002\<rparr>)])])))"
proof -
  have c: "canonical example_ip_address4 example_str4 ''203.0.113.1''"
    "canonical example_ip_address4 example_str4 ''203.0.113.2''"
    by (simp_all add: canonical_def example_ip_address4_def example_str4_def)
  then have "\<forall>e \<in> set (concat (map snd
        [(''default'', [(''203.0.113.1'', \<lparr>remote_as = Some 65001\<rparr>)]),
         (''mgmt'', [(''203.0.113.1'', \<lparr>remote_as = Some 65001\<rparr>),
                     (''203.0.113.2'', \<lparr>remote_as = Some 65002\<rparr>)])])).
      canonical example_ip_address4 example_str4 (fst e)" by simp
  from normalizer_distinct_canonical [OF this] c show ?thesis by simp
qed

subsection \<open>The counts of the import\<close>

text \<open>
  C5. The second count of an import is the number of neighbors whose AS was resolved,
  not the number of AS records created: one neighbor of AS 65001, which has a local
  record already, gives the counts (1, 1) and leaves the AS table as it was; two
  neighbors of the new AS 65002 give (2, 2) while one AS record is created.
\<close>

theorem import_sessions_counts_resolved_neighbors:
  "import_sessions neighbors_known_asn example_networks example_prefixes []
     example_ases example_ixp (hd example_connections)
   = Inr ((1, 1),
          [\<lparr>pk = 1, autonomous_system = 2, ip_address = IPv4Address 3405803777,
            bgp_state = [], received_prefix_count = 0, advertised_prefix_count = 0,
            last_established_state = None, ixp_connection = Some 1\<rparr>],
          example_ases)
   \<and> import_sessions neighbors_same_asn example_networks example_prefixes []
         example_ases example_ixp (hd example_connections)
       = Inr ((2, 2),
              [\<lparr>pk = 1, autonomous_system = 3, ip_address = IPv4Address 3405803777,
                bgp_state = [], received_prefix_count = 0, advertised_prefix_count = 0,
                last_established_state = None, ixp_connection = Some 1\<rparr>,
               \<lparr>pk = 2, autonomous_system = 3, ip_address = IPv4Address 3405803778,
                bgp_state = [], received_prefix_count = 0, advertised_prefix_count = 0,
                last_established_state = None, ixp_connection = Some 1\<rparr>],
              example_ases @
                [\<lparr>pk = 3, asn = 65002, name = ''other'', irr_as_set = [],
                  ipv6_max_prefixes = 0, ipv4_max_prefixes = 0\<rparr>])"
  by (simp add: import_defs neighbors_known_asn_def neighbors_same_asn_def
      example_networks_def example_prefixes_def example_ases_def example_ixp_def
      example_connections_def)

subsection \<open>The import, run twice\<close>

lemma objects_get_Found_length: "objects_get P t = Found e \<Longrightarrow> length (filter P t) = 1"
  by (auto simp: objects_get_def split: list.splits)

lemma objects_get_DoesNotExist_length:
  "objects_get P t = DoesNotExist \<longleftrightarrow> length (filter P t) = 0"
  by (auto simp: objects_get_def split: list.splits)

lemma length_one_objects_get: "length (filter P t) = 1 \<Longrightarrow> \<exists>e. objects_get P t = Found e"
  by (auto simp: objects_get_def length_Suc_conv split: list.splits)

lemma create_from_peeringdb_None:
  "create_from_peeringdb networks ases n = Inr (None, ases') \<Longrightarrow>
   objects_get (\<lambda>x. net_asn x = n) networks = DoesNotExist \<and> ases' = ases"
  by (auto simp: create_from_peeringdb_def Let_def split: get_result.splits)

lemma create_from_peeringdb_DoesNotExist:
  "objects_get (\<lambda>x. net_asn x = n) networks = DoesNotExist \<Longrightarrow>
   create_from_peeringdb networks ases n = Inr (None, ases)"
  by (simp add: create_from_peeringdb_def)

lemma create_from_peeringdb_Some:
  "create_from_peeringdb networks ases n = Inr (Some a, ases') \<Longrightarrow>
   objects_get (\<lambda>x. net_asn x = n) networks \<noteq> DoesNotExist"
  by (auto simp: create_from_peeringdb_def)

lemma import_loop_Cons_cases:
  assumes "import_loop c nets al (x # xs) st = Inr st'"
  obtains
    (skip) "\<not> is_valid al (peer_ip_address x)
            \<or> session_count c (peer_ip_address x) (sessions st) = 1"
      "import_loop c nets al xs st = Inr st'"
  | (ignored) ign where "is_valid al (peer_ip_address x)"
      "session_count c (peer_ip_address x) (sessions st) = 0"
      "objects_get (\<lambda>n. net_asn n = peer_remote_asn x) nets = DoesNotExist"
      "import_loop c nets al xs (st\<lparr>ignored_autonomous_systems := ign\<rparr>) = Inr st'"
  | (created) a :: AutonomousSystem and ases where "is_valid al (peer_ip_address x)"
      "session_count c (peer_ip_address x) (sessions st) = 0"
      "objects_get (\<lambda>n. net_asn n = peer_remote_asn x) nets \<noteq> DoesNotExist"
      "import_loop c nets al xs
         (st\<lparr>sessions := sessions st @
               [\<lparr>pk = next_pk (sessions st), autonomous_system = pk a,
                 ip_address = peer_ip_address x, bgp_state = [], received_prefix_count = 0,
                 advertised_prefix_count = 0, last_established_state = None,
                 ixp_connection = Some c\<rparr>],
             autonomous_systems := ases,
             session_number := session_number st + 1,
             asn_number := asn_number st + 1\<rparr>) = Inr st'"
proof (cases "is_valid al (peer_ip_address x)")
  case False
  with assms show ?thesis by (intro skip) (simp_all add: Let_def)
next
  case True
  let ?P = "\<lambda>s. ixp_connection s = Some c \<and> ip_address s = peer_ip_address x"
  show ?thesis
  proof (cases "objects_get ?P (sessions st)")
    case (Found e)
    then have "session_count c (peer_ip_address x) (sessions st) = 1"
      by (simp add: session_count_def objects_get_Found_length)
    moreover have "import_loop c nets al xs st = Inr st'"
      using assms True Found by (simp add: Let_def)
    ultimately show ?thesis by (intro skip) simp_all
  next
    case MultipleObjects
    with assms True show ?thesis by (simp add: Let_def)
  next
    case DoesNotExist
    then have cnt: "session_count c (peer_ip_address x) (sessions st) = 0"
      by (simp add: session_count_def objects_get_DoesNotExist_length)
    show ?thesis
    proof (cases "create_from_peeringdb nets (autonomous_systems st) (peer_remote_asn x)")
      case (Inl e)
      with assms True DoesNotExist show ?thesis by (simp add: Let_def)
    next
      case (Inr res)
      obtain oa ases where res: "res = (oa, ases)" by (cases res)
      show ?thesis
      proof (cases oa)
        case None
        from create_from_peeringdb_None [OF Inr [unfolded res None]]
        have dne: "objects_get (\<lambda>n. net_asn n = peer_remote_asn x) nets = DoesNotExist"
          and same: "ases = autonomous_systems st" by simp_all
        have "import_loop c nets al xs
                (st\<lparr>ignored_autonomous_systems :=
                      (if peer_remote_asn x \<notin> set (ignored_autonomous_systems st)
                       then ignored_autonomous_systems st @ [peer_remote_asn x]
                       else ignored_autonomous_systems st)\<rparr>) = Inr st'"
          using assms True DoesNotExist Inr res None same by (simp add: Let_def)
        with True cnt dne show ?thesis by (intro ignored) simp_all
      next
        case (Some a)
        have ne: "objects_get (\<lambda>n. net_asn n = peer_remote_asn x) nets \<noteq> DoesNotExist"
          using create_from_peeringdb_Some [OF Inr [unfolded res Some]] .
        have loop: "import_loop c nets al xs
         (st\<lparr>sessions := sessions st @
               [\<lparr>pk = next_pk (sessions st), autonomous_system = pk a,
                 ip_address = peer_ip_address x, bgp_state = [], received_prefix_count = 0,
                 advertised_prefix_count = 0, last_established_state = None,
                 ixp_connection = Some c\<rparr>],
             autonomous_systems := ases,
             session_number := session_number st + 1,
             asn_number := asn_number st + 1\<rparr>) = Inr st'"
          using assms True DoesNotExist Inr res Some by (simp add: Let_def)
        show ?thesis by (rule created [OF True cnt ne loop])
      qed
    qed
  qed
qed

lemma import_loop_count:
  "import_loop c nets al xs st = Inr st' \<Longrightarrow>
   session_count c ip (sessions st') = session_count c ip (sessions st)
   \<or> (session_count c ip (sessions st) = 0 \<and> session_count c ip (sessions st') = 1)"
proof (induction xs arbitrary: st)
  case Nil
  then show ?case by simp
next
  case (Cons x xs)
  from Cons.prems show ?case
  proof (cases rule: import_loop_Cons_cases)
    case skip
    from Cons.IH [OF skip(2)] show ?thesis .
  next
    case (ignored ign)
    from Cons.IH [OF ignored(4)] show ?thesis by simp
  next
    case (created a ases)
    let ?new = "\<lparr>pk = next_pk (sessions st), autonomous_system = pk a,
                 ip_address = peer_ip_address x, bgp_state = [], received_prefix_count = 0,
                 advertised_prefix_count = 0, last_established_state = None,
                 ixp_connection = Some c\<rparr>"
    have n: "session_count c ip (sessions st @ [?new])
               = session_count c ip (sessions st) + (if peer_ip_address x = ip then 1 else 0)"
      by (simp add: session_count_def)
    show ?thesis
    proof (cases "peer_ip_address x = ip")
      case True
      with Cons.IH [OF created(4)] created(2) n show ?thesis by auto
    next
      case False
      with Cons.IH [OF created(4)] n show ?thesis by auto
    qed
  qed
qed

lemma import_loop_settled:
  "import_loop c nets al xs st = Inr st' \<Longrightarrow>
   \<forall>x \<in> set xs. is_valid al (peer_ip_address x) \<longrightarrow>
     session_count c (peer_ip_address x) (sessions st') = 1
     \<or> (session_count c (peer_ip_address x) (sessions st') = 0
        \<and> objects_get (\<lambda>n. net_asn n = peer_remote_asn x) nets = DoesNotExist)"
proof (induction xs arbitrary: st)
  case Nil
  then show ?case by simp
next
  case (Cons x xs)
  let ?ip = "peer_ip_address x"
  from Cons.prems show ?case
  proof (cases rule: import_loop_Cons_cases)
    case skip
    from import_loop_count [OF skip(2), of ?ip] skip(1)
    have "is_valid al ?ip \<longrightarrow> session_count c ?ip (sessions st') = 1" by auto
    with Cons.IH [OF skip(2)] show ?thesis by simp
  next
    case (ignored ign)
    from import_loop_count [OF ignored(4), of ?ip] ignored(2)
    have "session_count c ?ip (sessions st') = 0 \<or> session_count c ?ip (sessions st') = 1"
      by auto
    with Cons.IH [OF ignored(4)] ignored(3) show ?thesis by auto
  next
    case (created a ases)
    have "session_count c ?ip (sessions st @
            [\<lparr>pk = next_pk (sessions st), autonomous_system = pk a,
              ip_address = ?ip, bgp_state = [], received_prefix_count = 0,
              advertised_prefix_count = 0, last_established_state = None,
              ixp_connection = Some c\<rparr>]) = 1"
      using created(2) by (simp add: session_count_def)
    with import_loop_count [OF created(4), of ?ip]
    have "session_count c ?ip (sessions st') = 1" by auto
    with Cons.IH [OF created(4)] show ?thesis by simp
  qed
qed

lemma import_loop_again:
  "\<forall>x \<in> set xs. is_valid al (peer_ip_address x) \<longrightarrow>
     session_count c (peer_ip_address x) (sessions st) = 1
     \<or> (session_count c (peer_ip_address x) (sessions st) = 0
        \<and> objects_get (\<lambda>n. net_asn n = peer_remote_asn x) nets = DoesNotExist) \<Longrightarrow>
   \<exists>ign. import_loop c nets al xs st = Inr (st\<lparr>ignored_autonomous_systems := ign\<rparr>)"
proof (induction xs arbitrary: st)
  case Nil
  have "st = st\<lparr>ignored_autonomous_systems := ignored_autonomous_systems st\<rparr>" by simp
  then show ?case by (metis import_loop.simps(1))
next
  case (Cons x xs)
  let ?ip = "peer_ip_address x"
  let ?P = "\<lambda>s. ixp_connection s = Some c \<and> ip_address s = ?ip"
  have rest: "\<forall>x \<in> set xs. is_valid al (peer_ip_address x) \<longrightarrow>
     session_count c (peer_ip_address x) (sessions st) = 1
     \<or> (session_count c (peer_ip_address x) (sessions st) = 0
        \<and> objects_get (\<lambda>n. net_asn n = peer_remote_asn x) nets = DoesNotExist)"
    using Cons.prems by simp
  consider (invalid) "\<not> is_valid al ?ip"
    | (exists) "is_valid al ?ip" "session_count c ?ip (sessions st) = 1"
    | (unresolved) "is_valid al ?ip" "session_count c ?ip (sessions st) = 0"
        "objects_get (\<lambda>n. net_asn n = peer_remote_asn x) nets = DoesNotExist"
    using Cons.prems by auto
  then show ?case
  proof cases
    case invalid
    with Cons.IH [OF rest] show ?thesis by (simp add: Let_def)
  next
    case exists
    then obtain e where "objects_get ?P (sessions st) = Found e"
      using length_one_objects_get [of ?P "sessions st"] by (auto simp: session_count_def)
    with exists Cons.IH [OF rest] show ?thesis by (simp add: Let_def)
  next
    case unresolved
    let ?ign = "if peer_remote_asn x \<notin> set (ignored_autonomous_systems st)
                then ignored_autonomous_systems st @ [peer_remote_asn x]
                else ignored_autonomous_systems st"
    let ?st = "st\<lparr>ignored_autonomous_systems := ?ign\<rparr>"
    have g: "objects_get ?P (sessions st) = DoesNotExist"
      using unresolved(2) by (simp add: session_count_def objects_get_DoesNotExist_length)
    have step: "import_loop c nets al (x # xs) st = import_loop c nets al xs ?st"
      using unresolved(1) g create_from_peeringdb_DoesNotExist [OF unresolved(3)]
      by (simp add: Let_def)
    have "\<forall>x \<in> set xs. is_valid al (peer_ip_address x) \<longrightarrow>
       session_count c (peer_ip_address x) (sessions ?st) = 1
       \<or> (session_count c (peer_ip_address x) (sessions ?st) = 0
          \<and> objects_get (\<lambda>n. net_asn n = peer_remote_asn x) nets = DoesNotExist)"
      using rest by simp
    from Cons.IH [OF this] obtain ign where
      "import_loop c nets al xs ?st = Inr (?st\<lparr>ignored_autonomous_systems := ign\<rparr>)" ..
    then have "import_loop c nets al (x # xs) st = Inr (st\<lparr>ignored_autonomous_systems := ign\<rparr>)"
      using step by simp
    then show ?thesis ..
  qed
qed

text \<open>
  C8. An import that went through, run again on the same live neighbors and the same
  PeeringDB cache, creates no session and no AS record and returns the counts (0, 0):
  every neighbor inside the allowed prefixes either has its session by now and is
  skipped, or has an ASN without network record and is ignored again.
\<close>

theorem import_sessions_idempotent:
  assumes "import_sessions get_bgp_neighbors networks prefixes table ases self connection
             = Inr (counts, table', ases')"
  shows "import_sessions get_bgp_neighbors networks prefixes table' ases' self connection
           = Inr ((0, 0), table', ases')"
proof -
  let ?al = "get_prefixes prefixes self"
  from assms obtain r st' where r: "connection_router connection = Some r"
    and run: "import_loop (pk connection) networks ?al (get_bgp_neighbors r)
                \<lparr>sessions = table, autonomous_systems = ases, session_number = 0,
                 asn_number = 0, ignored_autonomous_systems = []\<rparr> = Inr st'"
    and t: "table' = sessions st'" and a: "ases' = autonomous_systems st'"
    by (auto simp: import_sessions_def Let_def split: option.splits sum.splits)
  let ?st2 = "\<lparr>sessions = table', autonomous_systems = ases', session_number = 0,
               asn_number = 0, ignored_autonomous_systems = []\<rparr>"
  have "\<forall>x \<in> set (get_bgp_neighbors r). is_valid ?al (peer_ip_address x) \<longrightarrow>
     session_count (pk connection) (peer_ip_address x) (sessions ?st2) = 1
     \<or> (session_count (pk connection) (peer_ip_address x) (sessions ?st2) = 0
        \<and> objects_get (\<lambda>n. net_asn n = peer_remote_asn x) networks = DoesNotExist)"
    using import_loop_settled [OF run] by (simp add: t)
  from import_loop_again [OF this] obtain ign where
    "import_loop (pk connection) networks ?al (get_bgp_neighbors r) ?st2
       = Inr (?st2\<lparr>ignored_autonomous_systems := ign\<rparr>)" ..
  then show ?thesis using r by (simp add: import_sessions_def Let_def)
qed

text \<open>Two neighbors of the new AS 65002, imported twice.\<close>

theorem import_sessions_idempotent_witness:
  "import_sessions neighbors_same_asn example_networks example_prefixes []
     example_ases example_ixp (hd example_connections)
   = Inr ((2, 2),
          [\<lparr>pk = 1, autonomous_system = 3, ip_address = IPv4Address 3405803777,
            bgp_state = [], received_prefix_count = 0, advertised_prefix_count = 0,
            last_established_state = None, ixp_connection = Some 1\<rparr>,
           \<lparr>pk = 2, autonomous_system = 3, ip_address = IPv4Address 3405803778,
            bgp_state = [], received_prefix_count = 0, advertised_prefix_count = 0,
            last_established_state = None, ixp_connection = Some 1\<rparr>],
          example_ases @
            [\<lparr>pk = 3, asn = 65002, name = ''other'', irr_as_set = [],
              ipv6_max_prefixes = 0, ipv4_max_prefixes = 0\<rparr>])
   \<and> import_sessions neighbors_same_asn example_networks example_prefixes
         [\<lparr>pk = 1, autonomous_system = 3, ip_address = IPv4Address 3405803777,
           bgp_state = [], received_prefix_count = 0, advertised_prefix_count = 0,
           last_established_state = None, ixp_connection = Some 1\<rparr>,
          \<lparr>pk = 2, autonomous_system = 3, ip_address = IPv4Address 3405803778,
           bgp_state = [], received_prefix_count = 0, advertised_prefix_count = 0,
           last_established_state = None, ixp_connection = Some 1\<rparr>]
         (example_ases @
            [\<lparr>pk = 3, asn = 65002, name = ''other'', irr_as_set = [],
              ipv6_max_prefixes = 0, ipv4_max_prefixes = 0\<rparr>])
         example_ixp (hd example_connections)
       = Inr ((0, 0),
              [\<lparr>pk = 1, autonomous_system = 3, ip_address = IPv4Address 3405803777,
                bgp_state = [], received_prefix_count = 0, advertised_prefix_count = 0,
                last_established_state = None, ixp_connection = Some 1\<rparr>,
               \<lparr>pk = 2, autonomous_system = 3, ip_address = IPv4Address 3405803778,
                bgp_state = [], received_prefix_count = 0, advertised_prefix_count = 0,
                last_established_state = None, ixp_connection = Some 1\<rparr>],
              example_ases @
                [\<lparr>pk = 3, asn = 65002, name = ''other'', irr_as_set = [],
                  ipv6_max_prefixes = 0, ipv4_max_prefixes = 0\<rparr>])"
proof -
  have first: "import_sessions neighbors_same_asn example_networks example_prefixes []
     example_ases example_ixp (hd example_connections)
   = Inr ((2, 2),
          [\<lparr>pk = 1, autonomous_system = 3, ip_address = IPv4Address 3405803777,
            bgp_state = [], received_prefix_count = 0, advertised_prefix_count = 0,
            last_established_state = None, ixp_connection = Some 1\<rparr>,
           \<lparr>pk = 2, autonomous_system = 3, ip_address = IPv4Address 3405803778,
            bgp_state = [], received_prefix_count = 0, advertised_prefix_count = 0,
            last_established_state = None, ixp_connection = Some 1\<rparr>],
          example_ases @
            [\<lparr>pk = 3, asn = 65002, name = ''other'', irr_as_set = [],
              ipv6_max_prefixes = 0, ipv4_max_prefixes = 0\<rparr>])"
    by (simp add: import_defs neighbors_same_asn_def example_networks_def
        example_prefixes_def example_ases_def example_ixp_def example_connections_def)
  from import_sessions_idempotent [OF first] first show ?thesis by simp
qed

lemma import_loop_all_invalid:
  "\<forall>x \<in> set xs. \<not> is_valid al (peer_ip_address x) \<Longrightarrow> import_loop c nets al xs st = Inr st"
  by (induction xs arbitrary: st) (simp_all add: Let_def)

text \<open>
  An import whose live neighbors all lie outside the allowed prefixes creates nothing
  and returns (0, 0).
\<close>

theorem import_sessions_outside_prefixes:
  assumes "connection_router connection = Some r"
    and "\<forall>x \<in> set (get_bgp_neighbors r).
           \<not> is_valid (get_prefixes prefixes self) (peer_ip_address x)"
  shows "import_sessions get_bgp_neighbors networks prefixes table ases self connection
           = Inr ((0, 0), table, ases)"
  using assms import_loop_all_invalid [OF assms(2)]
  by (simp add: import_sessions_def Let_def)

text \<open>
  The allowed prefix 203.0.113.0/24 and the live neighbor 198.51.100.5.
\<close>

theorem import_sessions_outside_prefixes_witness:
  "connection_router (hd example_connections) = Some 1
   \<and> \<not> is_valid (get_prefixes example_prefixes example_ixp) (IPv4Address 3325256709)
   \<and> import_sessions neighbors_outside example_networks example_prefixes [] example_ases
        example_ixp (hd example_connections) = Inr ((0, 0), [], example_ases)"
proof -
  have 1: "connection_router (hd example_connections) = Some 1"
    by (simp add: example_connections_def)
  have 2: "\<not> is_valid (get_prefixes example_prefixes example_ixp) (IPv4Address 3325256709)"
    by (simp add: get_prefixes_def linked_to_peeringdb_def example_prefixes_def
        example_ixp_def network_contains_def max_prefixlen_def)
  then have "\<forall>x \<in> set (neighbors_outside 1).
           \<not> is_valid (get_prefixes example_prefixes example_ixp) (peer_ip_address x)"
    by (simp add: neighbors_outside_def)
  from import_sessions_outside_prefixes [where get_bgp_neighbors = neighbors_outside
      and networks = example_networks and table = "[]" and ases = example_ases, OF 1 this]
    1 2
  show ?thesis by simp
qed

subsection \<open>The abandonment rule\<close>

text \<open>
  C9. The rule reads whether the session's connection is linked to a PeeringDB member
  record, not whether the IXP of the connection is linked to an exchange record. A
  session in state idle whose IXP is linked and checks session states, whose AS has a
  network record and whose address has no member record, is not abandoned when its
  connection is not linked; and the same session is abandoned when the connection is
  linked and the IXP is not.
\<close>

theorem is_abandoned_reads_link_of_connection:
  "is_abandoned example_connections [example_ixp] example_ases example_networks []
     example_session = Inr False
   \<and> linked_to_peeringdb example_ixp \<and> check_bgp_session_states example_ixp
   \<and> peeringdb_network example_networks (example_ases ! 1)
       = Inr (Some (hd example_networks))
   \<and> exists_in_peeringdb [] example_session = Inr False
   \<and> bgp_state example_session = IDLE
   \<and> is_abandoned [(hd example_connections)\<lparr>peeringdb_netixlan := Some 5\<rparr>]
         [example_ixp\<lparr>peeringdb_ixlan := None\<rparr>] example_ases example_networks []
         example_session = Inr True
   \<and> \<not> linked_to_peeringdb (example_ixp\<lparr>peeringdb_ixlan := None\<rparr>)"
  by (simp add: abandoned_defs linked_to_peeringdb_def example_networks_def
      example_ases_def example_ixp_def example_connections_def example_session_def)

text \<open>
  The rule as the code has it: a session is abandoned exactly when its connection is
  linked to a PeeringDB member record, the IXP of the connection checks session states,
  the AS of the session has a cached network record, no member record has the
  session's address, and the state is idle or active.
\<close>

theorem is_abandoned_iff:
  "is_abandoned connections ixps ases networks netixlans self = Inr True \<longleftrightarrow>
   (\<exists>c ixp a n.
      deref (ixp_connection self) connections = Some c \<and> connection_linked_to_peeringdb c \<and>
      deref (internet_exchange_point c) ixps = Some ixp \<and> check_bgp_session_states ixp \<and>
      deref (Some (autonomous_system self)) ases = Some a \<and>
      peeringdb_network networks a = Inr (Some n) \<and>
      exists_in_peeringdb netixlans self = Inr False \<and>
      (bgp_state self = IDLE \<or> bgp_state self = ACTIVE))"
  by (auto simp: is_abandoned_def split: option.splits sum.splits bool.splits if_splits)

text \<open>
  A session in state established is never abandoned, and neither is a session whose AS
  has no cached network record.
\<close>

theorem is_abandoned_never:
  "(bgp_state self = ESTABLISHED \<longrightarrow>
      is_abandoned connections ixps ases networks netixlans self \<noteq> Inr True)
   \<and> (deref (Some (autonomous_system self)) ases = Some a \<and>
      peeringdb_network networks a = Inr None \<longrightarrow>
      is_abandoned connections ixps ases networks netixlans self \<noteq> Inr True)"
  by (auto simp: is_abandoned_def IDLE_def ACTIVE_def ESTABLISHED_def
      split: option.splits sum.splits bool.splits if_splits)

text \<open>
  The session of the scenario on a linked connection: established, and idle without
  network records.
\<close>

theorem is_abandoned_never_witness:
  "bgp_state (example_session\<lparr>bgp_state := ''established''\<rparr>) = ESTABLISHED
   \<and> is_abandoned [(hd example_connections)\<lparr>peeringdb_netixlan := Some 5\<rparr>] [example_ixp]
        example_ases example_networks [] (example_session\<lparr>bgp_state := ''established''\<rparr>)
       = Inr False
   \<and> deref (Some (autonomous_system example_session)) example_ases = Some (example_ases ! 1)
   \<and> peeringdb_network [] (example_ases ! 1) = Inr None
   \<and> is_abandoned [(hd example_connections)\<lparr>peeringdb_netixlan := Some 5\<rparr>] [example_ixp]
        example_ases [] [] example_session = Inr False"
proof -
  let ?s = "example_session\<lparr>bgp_state := ''established''\<rparr>"
  let ?cs = "[(hd example_connections)\<lparr>peeringdb_netixlan := Some 5\<rparr>]"
  have 1: "bgp_state ?s = ESTABLISHED" by (simp add: ESTABLISHED_def)
  have 2: "is_abandoned ?cs [example_ixp] example_ases example_networks [] ?s = Inr False"
    by (simp add: abandoned_defs example_networks_def example_ases_def example_ixp_def
        example_connections_def example_session_def)
  have 3: "deref (Some (autonomous_system example_session)) example_ases
             = Some (example_ases ! 1)"
    by (simp add: deref_def example_session_def example_ases_def)
  have 4: "peeringdb_network [] (example_ases ! 1) = Inr None"
    by (simp add: peeringdb_network_def objects_get_def)
  have 5: "is_abandoned ?cs [example_ixp] example_ases [] [] example_session = Inr False"
    by (simp add: abandoned_defs example_ases_def example_ixp_def
        example_connections_def example_session_def)
  from is_abandoned_never [of ?s ?cs "[example_ixp]" example_ases example_networks "[]"
      "example_ases ! 1"] 1 2 3 4 5
  show ?thesis by simp
qed

text \<open>
  The idle session on a linked connection, with a network record and no member record,
  is abandoned.
\<close>

theorem is_abandoned_iff_witness:
  "is_abandoned [(hd example_connections)\<lparr>peeringdb_netixlan := Some 5\<rparr>] [example_ixp]
     example_ases example_networks [] example_session = Inr True"
proof -
  have "is_abandoned [(hd example_connections)\<lparr>peeringdb_netixlan := Some 5\<rparr>] [example_ixp]
     example_ases example_networks [] example_session = Inr True"
    by (simp add: abandoned_defs example_networks_def example_ases_def example_ixp_def
        example_connections_def example_session_def)
  with is_abandoned_iff [of "[(hd example_connections)\<lparr>peeringdb_netixlan := Some 5\<rparr>]"
      "[example_ixp]" example_ases example_networks "[]" example_session]
  show ?thesis by simp
qed

subsection \<open>Available peers\<close>

lemma existing_addresses_eq:
  "set (map ip_address (filter (\<lambda>s. version (ip_address s) = v)
          (get_peering_sessions connections table self)))
     = spec_existing_addresses connections table self v"
  by (auto simp: spec_existing_addresses_def get_peering_sessions_def get_connections_def)

text \<open>
  C10. The available-peers query of an IXP that is not linked to a PeeringDB record
  returns nothing. For a linked IXP (with its local AS) it returns exactly the member
  records of the linked exchange whose ASN is not the local one and whose v6 address is
  not the address of an existing v6 session or whose v4 address is not the address of an
  existing v4 session, ordered by ASN ascending.
\<close>

theorem get_available_peers_members:
  "(\<not> linked_to_peeringdb self \<longrightarrow>
      get_available_peers connections table ases netixlans self = Inr []) \<and>
   (linked_to_peeringdb self \<and> deref (local_autonomous_system self) ases = Some local_as \<longrightarrow>
      (\<exists>peers. get_available_peers connections table ases netixlans self = Inr peers \<and>
         sorted (map netixlan_asn peers) \<and>
         mset peers = mset (filter (\<lambda>m. Some (ixlan m) = peeringdb_ixlan self \<and>
             netixlan_asn m \<noteq> asn local_as \<and>
             (ipaddr6 m \<notin> Some ` spec_existing_addresses connections table self 6 \<or>
              ipaddr4 m \<notin> Some ` spec_existing_addresses connections table self 4))
           netixlans)))"
proof (intro conjI impI)
  assume "\<not> linked_to_peeringdb self"
  then show "get_available_peers connections table ases netixlans self = Inr []"
    by (simp add: get_available_peers_def)
next
  assume h: "linked_to_peeringdb self \<and>
    deref (local_autonomous_system self) ases = Some local_as"
  let ?v6 = "map ip_address (filter (\<lambda>s. version (ip_address s) = 6)
                (get_peering_sessions connections table self))"
  let ?v4 = "map ip_address (filter (\<lambda>s. version (ip_address s) = 4)
                (get_peering_sessions connections table self))"
  let ?P = "available_peer (asn local_as) (peeringdb_ixlan self) ?v6 ?v4"
  have res: "get_available_peers connections table ases netixlans self
               = Inr (sort_key netixlan_asn (filter ?P netixlans))"
    using h by (simp add: get_available_peers_def Let_def)
  have P: "?P m \<longleftrightarrow> (Some (ixlan m) = peeringdb_ixlan self \<and>
             netixlan_asn m \<noteq> asn local_as \<and>
             (ipaddr6 m \<notin> Some ` spec_existing_addresses connections table self 6 \<or>
              ipaddr4 m \<notin> Some ` spec_existing_addresses connections table self 4))" for m
    unfolding available_peer_def set_map existing_addresses_eq[symmetric]
    by (simp add: image_image) blast
  show "\<exists>peers. get_available_peers connections table ases netixlans self = Inr peers \<and>
         sorted (map netixlan_asn peers) \<and>
         mset peers = mset (filter (\<lambda>m. Some (ixlan m) = peeringdb_ixlan self \<and>
             netixlan_asn m \<noteq> asn local_as \<and>
             (ipaddr6 m \<notin> Some ` spec_existing_addresses connections table self 6 \<or>
              ipaddr4 m \<notin> Some ` spec_existing_addresses connections table self 4))
           netixlans)"
    unfolding res by (simp add: P)
qed

text \<open>
  The member 65001 has both addresses and a session over its v4 address only: it is
  still available.
\<close>

theorem get_available_peers_members_witness:
  "linked_to_peeringdb example_ixp \<and>
   deref (local_autonomous_system example_ixp) example_ases = Some (hd example_ases) \<and>
   get_available_peers example_connections [example_session] example_ases [example_member]
     example_ixp = Inr [example_member]"
proof -
  have l: "linked_to_peeringdb example_ixp"
    by (simp add: linked_to_peeringdb_def example_ixp_def)
  have d: "deref (local_autonomous_system example_ixp) example_ases = Some (hd example_ases)"
    by (simp add: deref_def example_ixp_def example_ases_def)
  have e: "get_available_peers example_connections [example_session] example_ases
             [example_member] example_ixp = Inr [example_member]"
    by (auto simp: get_available_peers_def linked_to_peeringdb_def deref_def Let_def
        get_peering_sessions_def get_connections_def available_peer_def example_ixp_def
        example_ases_def example_connections_def example_session_def example_member_def)
  from get_available_peers_members [of example_ixp example_connections "[example_session]"
      example_ases "[example_member]" "hd example_ases"] l d
  have "\<exists>peers. get_available_peers example_connections [example_session] example_ases
          [example_member] example_ixp = Inr peers \<and> sorted (map netixlan_asn peers)"
    by blast
  with l d e show ?thesis by simp
qed

end
